theory Spec2Isabelle
  imports Complex_Main
begin

section \<open>Dynamically typed values\<close>

text \<open>
  The adaptor works on fields of Go type \<^verbatim>\<open>any\<close>. A value decoded from JSON is
  \<^verbatim>\<open>nil\<close>, a bool, a float64, a string, a \<^verbatim>\<open>[]interface{}\<close> or a
  \<^verbatim>\<open>map[string]interface{}\<close>; the adaptor itself also stores values of type
  \<^verbatim>\<open>map[string]string\<close> (the repaired cache-control marker), which a type assertion
  to \<^verbatim>\<open>map[string]interface{}\<close> does not accept. A Go map is written as an association
  list, read through \<open>index\<close> and \<open>exists\<close> and written with \<open>assign\<close>; the order of
  the pairs carries no meaning.
\<close>

datatype any =
    ANil
  | ABool bool
  | ANum rat
  | AStr string
  | ASlice "any list"
  | AMap "(string \<times> any) list"
  | AStrMap "(string \<times> string) list"

type_synonym object = "(string \<times> any) list"

text \<open>
  A \<^verbatim>\<open>json.RawMessage\<close>: no bytes, the bytes of a JSON value, or bytes that do not parse.
\<close>

datatype RawMessage = RawEmpty | RawJson any | RawInvalid

text \<open>\<^verbatim>\<open>m[k]\<close> on a \<^verbatim>\<open>map[string]interface{}\<close>: \<^verbatim>\<open>nil\<close> when the key is absent.\<close>

definition index :: "object \<Rightarrow> string \<Rightarrow> any" where
  "index m k = (case map_of m k of None \<Rightarrow> ANil | Some v \<Rightarrow> v)"

text \<open>\<^verbatim>\<open>m[k] = v\<close>: the value of an existing key is replaced, a new key is added.\<close>

fun assign :: "object \<Rightarrow> string \<Rightarrow> any \<Rightarrow> object" where
  "assign [] k v = [(k, v)]"
| "assign ((k', v') # m) k v = (if k' = k then (k, v) # m else (k', v') # assign m k v)"

text \<open>\<^verbatim>\<open>_, exists := m[k]\<close>.\<close>

definition exists :: "object \<Rightarrow> string \<Rightarrow> bool" where
  "exists m k = (map_of m k \<noteq> None)"

text \<open>The type assertions \<^verbatim>\<open>x.(map[string]interface{})\<close> and \<^verbatim>\<open>x.(string)\<close> with the comma-ok form.\<close>

fun asMap :: "any \<Rightarrow> object option" where
  "asMap (AMap m) = Some m"
| "asMap _ = None"

fun asString :: "any \<Rightarrow> string option" where
  "asString (AStr s) = Some s"
| "asString _ = None"

text \<open>
  \<^verbatim>\<open>json.Unmarshal(raw, &m)\<close> with \<^verbatim>\<open>m\<close> a nil \<^verbatim>\<open>map[string]interface{}\<close>: a JSON object
  fills the map, \<^verbatim>\<open>null\<close> leaves it nil (every lookup gives \<^verbatim>\<open>nil\<close>), anything else is
  an error (\<open>None\<close>).
\<close>

fun UnmarshalMap :: "RawMessage \<Rightarrow> object option" where
  "UnmarshalMap (RawJson (AMap m)) = Some m"
| "UnmarshalMap (RawJson ANil) = Some []"
| "UnmarshalMap _ = None"

text \<open>
  \<^verbatim>\<open>var cc interface{}; json.Unmarshal(raw, &cc)\<close> with the error dropped: \<^verbatim>\<open>cc\<close> stays
  \<^verbatim>\<open>nil\<close> when the bytes do not parse.
\<close>

fun UnmarshalAny :: "RawMessage \<Rightarrow> any" where
  "UnmarshalAny (RawJson v) = v"
| "UnmarshalAny _ = ANil"

section \<open>Data model of the Claude request\<close>

record ClaudeMessageSource =
  src_Type :: string
  src_MediaType :: string
  src_Data :: string

record ClaudeUsage =
  InputTokens :: int
  OutputTokens :: int
  CacheReadInputTokens :: int
  CacheCreationInputTokens :: int
  GetCacheCreation5mTokens :: int
  GetCacheCreation1hTokens :: int

text \<open>
  \<^verbatim>\<open>dto.ClaudeMediaMessage\<close> is a content block of a request and also the payload of a
  stream event (\<^verbatim>\<open>message\<close>, \<^verbatim>\<open>content_block\<close>, \<^verbatim>\<open>delta\<close>). Its declaration lies outside the
  adaptor; the fields are the ones the adaptor reads or writes, and a pointer field is an
  option (\<^verbatim>\<open>nil\<close> when the JSON member is absent).
\<close>

record ClaudeMediaMessage =
  mm_Type :: string
  mm_Text :: "string option"
  mm_Model :: string
  mm_Source :: "ClaudeMessageSource option"
  mm_Usage :: "ClaudeUsage option"
  mm_StopReason :: "string option"
  mm_PartialJson :: "string option"
  mm_Thinking :: "string option"
  mm_CacheControl :: RawMessage
  mm_Id :: string
  mm_Name :: string
  mm_Input :: any
  mm_Content :: any
  mm_ToolUseId :: string

text \<open>The zero value \<^verbatim>\<open>dto.ClaudeMediaMessage{}\<close>.\<close>

definition emptyMedia :: ClaudeMediaMessage where
  "emptyMedia = \<lparr>mm_Type = [], mm_Text = None, mm_Model = [], mm_Source = None,
     mm_Usage = None, mm_StopReason = None, mm_PartialJson = None, mm_Thinking = None,
     mm_CacheControl = RawEmpty, mm_Id = [], mm_Name = [], mm_Input = ANil, mm_Content = ANil,
     mm_ToolUseId = []\<rparr>"

text \<open>
  The \<^verbatim>\<open>System\<close> field of a Claude request has type \<^verbatim>\<open>any\<close>. Besides decoded values it
  holds the two slice types the adaptor tests for.
\<close>

datatype system =
    SystemAny any
  | SystemMaps "object list"
  | SystemMedia "ClaudeMediaMessage list"

text \<open>The \<^verbatim>\<open>Content\<close> field of a Claude message, of type \<^verbatim>\<open>any\<close> as well.\<close>

datatype content =
    ContentAny any
  | ContentMedia "ClaudeMediaMessage list"

record ClaudeMessage =
  msg_Role :: string
  msg_Content :: content

section \<open>System-prompt injector\<close>

definition defaultSystemMessage :: string where
  "defaultSystemMessage = ''You are Claude Code, Anthropic's official CLI for Claude.''"

definition claudeCodeSystemPrompt :: object where
  "claudeCodeSystemPrompt = [(''type'', AStr ''text''), (''text'', AStr defaultSystemMessage)]"

text \<open>
  The test \<^verbatim>\<open>text, ok := firstMap["text"].(string); !ok || text != defaultSystemMessage\<close>.
\<close>

definition firstIsNotPrompt :: "object \<Rightarrow> bool" where
  "firstIsNotPrompt firstMap =
     (case asString (index firstMap ''text'') of
        None \<Rightarrow> True
      | Some text \<Rightarrow> text \<noteq> defaultSystemMessage)"

text \<open>The loop that keeps the elements of a \<^verbatim>\<open>[]interface{}\<close> that are mappings.\<close>

fun convertedSlice :: "any list \<Rightarrow> object list" where
  "convertedSlice [] = []"
| "convertedSlice (item # items) =
     (case asMap item of
        Some itemMap \<Rightarrow> itemMap # convertedSlice items
      | None \<Rightarrow> convertedSlice items)"

text \<open>The mapping built from one element of a \<^verbatim>\<open>[]dto.ClaudeMediaMessage\<close>.\<close>

definition mediaItem :: "ClaudeMediaMessage \<Rightarrow> object" where
  "mediaItem msg =
     [(''type'', AStr (mm_Type msg))]
     @ (case mm_Text msg of None \<Rightarrow> [] | Some t \<Rightarrow> [(''text'', AStr t)])
     @ (if mm_CacheControl msg \<noteq> RawEmpty
        then [(''cache_control'', UnmarshalAny (mm_CacheControl msg))] else [])"

fun processSystem :: "system \<Rightarrow> system" where
  "processSystem (SystemAny ANil) = SystemMaps [claudeCodeSystemPrompt]"
| "processSystem (SystemMaps systemSlice) =
     (case systemSlice of
        [] \<Rightarrow> SystemMaps [claudeCodeSystemPrompt]
      | firstMap # _ \<Rightarrow>
          if firstIsNotPrompt firstMap then SystemMaps (claudeCodeSystemPrompt # systemSlice)
          else SystemMaps systemSlice)"
| "processSystem (SystemAny (ASlice systemInterfaceSlice)) =
     (case systemInterfaceSlice of
        [] \<Rightarrow> SystemMaps [claudeCodeSystemPrompt]
      | first # _ \<Rightarrow>
          (case asMap first of
             Some firstMap \<Rightarrow>
               if firstIsNotPrompt firstMap
               then SystemMaps (claudeCodeSystemPrompt # convertedSlice systemInterfaceSlice)
               else SystemAny (ASlice systemInterfaceSlice)
           | None \<Rightarrow> SystemMaps [claudeCodeSystemPrompt]))"
| "processSystem (SystemMedia systemMediaSlice) =
     (case systemMediaSlice of
        [] \<Rightarrow> SystemMaps [claudeCodeSystemPrompt]
      | first # _ \<Rightarrow>
          (let firstText = (case mm_Text first of None \<Rightarrow> [] | Some t \<Rightarrow> t) in
           if firstText \<noteq> defaultSystemMessage
           then SystemMaps (claudeCodeSystemPrompt # map mediaItem systemMediaSlice)
           else SystemMedia systemMediaSlice))"
| "processSystem (SystemAny (AStr systemString)) =
     (if systemString \<noteq> defaultSystemMessage then SystemMaps [claudeCodeSystemPrompt]
      else SystemAny (AStr systemString))"
| "processSystem (SystemAny _) = SystemMaps [claudeCodeSystemPrompt]"

section \<open>Cache-control fixer\<close>

text \<open>
  \<^verbatim>\<open>cacheControlData\<close> is the marshalled marker, \<^verbatim>\<open>fixedCacheControl\<close> the
  \<^verbatim>\<open>map[string]string\<close> stored into decoded mappings.
\<close>

definition cacheControlData :: RawMessage where
  "cacheControlData = RawJson (AMap [(''type'', AStr ''ephemeral''), (''ttl'', AStr ''1h'')])"

definition fixedCacheControl :: any where
  "fixedCacheControl = AStrMap [(''type'', ''ephemeral''), (''ttl'', ''1h'')]"

text \<open>The test \<^verbatim>\<open>m["type"] == "ephemeral" && m["ttl"] == nil\<close>.\<close>

definition needsFix :: "object \<Rightarrow> bool" where
  "needsFix m = (index m ''type'' = AStr ''ephemeral'' \<and> index m ''ttl'' = ANil)"

text \<open>The body of the loop over a \<^verbatim>\<open>[]dto.ClaudeMediaMessage\<close>.\<close>

definition fixMedia :: "ClaudeMediaMessage \<Rightarrow> ClaudeMediaMessage" where
  "fixMedia content =
     (if mm_CacheControl content \<noteq> RawEmpty then
        (case UnmarshalMap (mm_CacheControl content) of
           Some existingCacheControl \<Rightarrow>
             if needsFix existingCacheControl
             then content\<lparr>mm_CacheControl := cacheControlData\<rparr>
             else content
         | None \<Rightarrow> content)
      else content)"

text \<open>The body of the loops over a slice of mappings and over a \<^verbatim>\<open>[]interface{}\<close>.\<close>

definition fixMap :: "object \<Rightarrow> object" where
  "fixMap contentMap =
     (if exists contentMap ''cache_control'' then
        (case asMap (index contentMap ''cache_control'') of
           Some cacheControlMap \<Rightarrow>
             if needsFix cacheControlMap
             then assign contentMap ''cache_control'' fixedCacheControl
             else contentMap
         | None \<Rightarrow> contentMap)
      else contentMap)"

definition fixItem :: "any \<Rightarrow> any" where
  "fixItem contentItem =
     (case asMap contentItem of
        Some contentMap \<Rightarrow> AMap (fixMap contentMap)
      | None \<Rightarrow> contentItem)"

definition fixCacheControlFormat :: "ClaudeMessage \<Rightarrow> ClaudeMessage" where
  "fixCacheControlFormat message =
     (case msg_Content message of
        ContentMedia contentArray \<Rightarrow>
          message\<lparr>msg_Content := ContentMedia (map fixMedia contentArray)\<rparr>
      | ContentAny (ASlice contentInterfaceArray) \<Rightarrow>
          message\<lparr>msg_Content := ContentAny (ASlice (map fixItem contentInterfaceArray))\<rparr>
      | _ \<Rightarrow> message)"

definition addCacheControlToMessage :: "ClaudeMessage \<Rightarrow> ClaudeMessage" where
  "addCacheControlToMessage message =
     (case msg_Content message of
        ContentAny (AStr contentText) \<Rightarrow>
          message\<lparr>msg_Content := ContentMedia
            [emptyMedia\<lparr>mm_Type := ''text'', mm_Text := Some contentText,
                         mm_CacheControl := cacheControlData\<rparr>]\<rparr>
      | ContentMedia contentArray \<Rightarrow>
          if contentArray \<noteq> [] then
            (let lastContentIndex = length contentArray - 1 in
             if mm_CacheControl (contentArray ! lastContentIndex) = RawEmpty
             then message\<lparr>msg_Content := ContentMedia
                    (contentArray[lastContentIndex :=
                       (contentArray ! lastContentIndex)\<lparr>mm_CacheControl := cacheControlData\<rparr>])\<rparr>
             else message)
          else message
      | ContentAny (ASlice contentInterfaceArray) \<Rightarrow>
          if contentInterfaceArray \<noteq> [] then
            (let lastContentIndex = length contentInterfaceArray - 1 in
             case asMap (contentInterfaceArray ! lastContentIndex) of
               Some lastContentMap \<Rightarrow>
                 if \<not> exists lastContentMap ''cache_control''
                 then message\<lparr>msg_Content := ContentAny (ASlice
                        (contentInterfaceArray[lastContentIndex :=
                           AMap (assign lastContentMap ''cache_control'' fixedCacheControl)]))\<rparr>
                 else message
             | None \<Rightarrow> message)
          else message
      | _ \<Rightarrow> message)"

text \<open>
  The loop \<^verbatim>\<open>for i := len(claudeMessages) - 1; i >= 0; i--\<close> with its \<^verbatim>\<open>break\<close>;
  the first argument is \<^verbatim>\<open>i + 1\<close>.
\<close>

fun lastUserLoop :: "nat \<Rightarrow> ClaudeMessage list \<Rightarrow> ClaudeMessage list" where
  "lastUserLoop 0 claudeMessages = claudeMessages"
| "lastUserLoop (Suc i) claudeMessages =
     (if msg_Role (claudeMessages ! i) = ''user''
      then claudeMessages[i := addCacheControlToMessage (claudeMessages ! i)]
      else lastUserLoop i claudeMessages)"

text \<open>
  \<^verbatim>\<open>addCacheControl\<close> is only ever called with a \<^verbatim>\<open>[]dto.ClaudeMessage\<close>, so the
  interface it takes is never \<^verbatim>\<open>nil\<close> and the type assertion succeeds.
\<close>

definition addCacheControl :: "ClaudeMessage list \<Rightarrow> ClaudeMessage list" where
  "addCacheControl claudeMessages =
     (if claudeMessages = [] then claudeMessages
      else (let fixed = map fixCacheControlFormat claudeMessages
            in lastUserLoop (length fixed) fixed))"

definition fixSystemCacheControl :: "system \<Rightarrow> system" where
  "fixSystemCacheControl sys =
     (case sys of
        SystemMaps systemSlice \<Rightarrow> SystemMaps (map fixMap systemSlice)
      | SystemAny (ASlice systemInterfaceSlice) \<Rightarrow>
          SystemAny (ASlice (map fixItem systemInterfaceSlice))
      | _ \<Rightarrow> sys)"

section \<open>Requests\<close>

text \<open>
  A call of the adaptor either returns or stops: with the error it returns, or with a
  run-time panic (a failed type assertion without the comma-ok form, a nil dereference).
\<close>

datatype failure = Error string | Panic string

record Thinking =
  th_Type :: string
  th_BudgetTokens :: "int option"

record ClaudeToolChoice =
  tc_Type :: string
  tc_Name :: string
  tc_DisableParallelToolUse :: bool

record Tool =
  tool_Name :: string
  tool_Description :: string
  tool_InputSchema :: object

record ClaudeWebSearchUserLocation =
  loc_Type :: string
  loc_Timezone :: string
  loc_Country :: string
  loc_Region :: string
  loc_City :: string

record ClaudeWebSearchTool =
  ws_Type :: string
  ws_Name :: string
  ws_MaxUses :: int
  ws_UserLocation :: "ClaudeWebSearchUserLocation option"

text \<open>
  The \<^verbatim>\<open>Tools\<close> field of a Claude request has type \<^verbatim>\<open>any\<close>: the value a client
  sent, or the slice the conversion builds.
\<close>

datatype claudeTool = ToolDef Tool | WebSearchDef ClaudeWebSearchTool

datatype tools = ToolsAny any | ToolsSlice "claudeTool list"

text \<open>
  \<^verbatim>\<open>MaxTokens\<close> is a \<^verbatim>\<open>uint\<close>; \<^verbatim>\<open>Temperature\<close> is a \<^verbatim>\<open>*float64\<close>, \<^verbatim>\<open>TopP\<close> a
  \<^verbatim>\<open>float64\<close>. The adaptor only copies, clears and compares them with constants, so a
  float64 is written as a rational number.
\<close>

record ClaudeRequest =
  cr_Model :: string
  cr_Prompt :: string
  cr_System :: system
  cr_Messages :: "ClaudeMessage list"
  cr_MaxTokens :: nat
  cr_MaxTokensToSample :: nat
  cr_StopSequences :: "string list option"
  cr_Temperature :: "rat option"
  cr_TopP :: rat
  cr_TopK :: int
  cr_Tools :: tools
  cr_ToolChoice :: "ClaudeToolChoice option"
  cr_Thinking :: "Thinking option"
  cr_Stream :: bool
  cr_Metadata :: RawMessage

record FunctionRequest =
  fn_Name :: string
  fn_Description :: string
  fn_Parameters :: any
  fn_Arguments :: string

record ToolCallRequest =
  tcr_ID :: string
  tcr_Function :: "FunctionRequest option"
  tcr_Name :: string
  tcr_Description :: string
  tcr_InputSchema :: object

record WebSearchOptions =
  wso_SearchContextSize :: string
  wso_UserLocation :: RawMessage

record Message =
  m_Role :: string
  m_Content :: any
  m_ToolCalls :: RawMessage
  m_ToolCallId :: string

record MediaContent =
  mc_Type :: string
  mc_Text :: string
  mc_ImageUrl :: any

text \<open>
  \<^verbatim>\<open>GetMaxTokens\<close> is the value the accessor of that name returns (a \<^verbatim>\<open>uint\<close>).
\<close>

record GeneralOpenAIRequest =
  or_Model :: string
  or_Messages :: "Message list"
  or_GetMaxTokens :: nat
  or_Temperature :: "rat option"
  or_TopP :: rat
  or_TopK :: int
  or_Stream :: bool
  or_Tools :: "ToolCallRequest list"
  or_WebSearchOptions :: "WebSearchOptions option"
  or_ToolChoice :: any
  or_ParallelTooCalls :: "bool option"
  or_ReasoningEffort :: string
  or_Reasoning :: RawMessage
  or_Stop :: any

text \<open>
  The settings and the collaborators the conversion calls; they are declared outside the
  adaptor and are parameters here.
  \<^item> \<open>GetDefaultMaxTokens\<close>, \<open>ThinkingAdapterEnabled\<close>,
    \<open>ThinkingAdapterBudgetTokensPercentage\<close>, \<open>ShouldPreserveThinkingSuffix\<close>: the model
    settings;
  \<^item> \<open>UnmarshalReasoning\<close>: \<^verbatim>\<open>common.Unmarshal\<close> into an \<^verbatim>\<open>openrouter.RequestReasoning\<close>,
    giving the error or the \<^verbatim>\<open>MaxTokens\<close> of the decoded value;
  \<^item> \<open>IsStringContent\<close>, \<open>StringContent\<close>, \<open>ParseContent\<close>, \<open>ParseToolCalls\<close>: the
    methods of \<^verbatim>\<open>dto.Message\<close>; \<open>GetImageMedia\<close>: the method of \<^verbatim>\<open>dto.MediaContent\<close>,
    giving the \<^verbatim>\<open>Url\<close> of the image or \<^verbatim>\<open>nil\<close>;
  \<^item> \<open>GetFileBase64FromUrl\<close> (an error, or mime type and data) and
    \<open>DecodeBase64ImageData\<close> (an error, or format and data): the image services;
  \<^item> \<open>UnmarshalArguments\<close>: \<^verbatim>\<open>json.Unmarshal\<close> of a tool call's arguments into a
    \<^verbatim>\<open>map[string]any\<close>, \<open>None\<close> on an error;
  \<^item> \<open>generateMetadata\<close>: the marshalled metadata with its random user id.
\<close>

record env =
  GetDefaultMaxTokens :: "string \<Rightarrow> int"
  ThinkingAdapterEnabled :: bool
  ThinkingAdapterBudgetTokensPercentage :: rat
  ShouldPreserveThinkingSuffix :: "string \<Rightarrow> bool"
  UnmarshalReasoning :: "RawMessage \<Rightarrow> string + int"
  IsStringContent :: "Message \<Rightarrow> bool"
  StringContent :: "Message \<Rightarrow> string"
  ParseContent :: "Message \<Rightarrow> MediaContent list"
  ParseToolCalls :: "Message \<Rightarrow> ToolCallRequest list"
  GetImageMedia :: "MediaContent \<Rightarrow> string option"
  GetFileBase64FromUrl :: "string \<Rightarrow> string + (string \<times> string)"
  DecodeBase64ImageData :: "string \<Rightarrow> string + (string \<times> string)"
  UnmarshalArguments :: "string \<Rightarrow> object option"
  generateMetadata :: RawMessage

subsection \<open>Strings and numbers\<close>

definition HasPrefix :: "string \<Rightarrow> string \<Rightarrow> bool" where
  "HasPrefix s p = (take (length p) s = p)"

definition HasSuffix :: "string \<Rightarrow> string \<Rightarrow> bool" where
  "HasSuffix s x = (length x \<le> length s \<and> drop (length s - length x) s = x)"

definition TrimSuffix :: "string \<Rightarrow> string \<Rightarrow> string" where
  "TrimSuffix s x = (if HasSuffix s x then take (length s - length x) s else s)"

text \<open>\<^verbatim>\<open>strings.Trim(s, "\"")\<close>: the double quotes at both ends are removed.\<close>

definition TrimQuotes :: "string \<Rightarrow> string" where
  "TrimQuotes s = rev (dropWhile (\<lambda>c. c = CHR 0x22) (rev (dropWhile (\<lambda>c. c = CHR 0x22) s)))"

text \<open>The conversion \<^verbatim>\<open>uint(n)\<close> of an \<^verbatim>\<open>int\<close> on a 64-bit platform.\<close>

definition uint :: "int \<Rightarrow> nat" where
  "uint n = nat (n mod 2 ^ 64)"

text \<open>A result of \<^verbatim>\<open>int\<close> arithmetic on a 64-bit platform: it wraps around.\<close>

definition int64 :: "int \<Rightarrow> int" where
  "int64 n = (n + 2 ^ 63) mod 2 ^ 64 - 2 ^ 63"

text \<open>
  \<^verbatim>\<open>int(float64(maxTokens) * percentage)\<close>: the product is taken exactly and cut towards
  zero. The rounding of float64 (of the percentage and of the product) and the range of
  \<^verbatim>\<open>int\<close> are not part of the model, so the value can differ from the code's by one where
  the exact product is an integer that the float64 product misses (1290 at 0.7 is 903 here
  and 902 in the code); at 1280 and 0.8 both give 1024.
\<close>

definition budgetTokens :: "nat \<Rightarrow> rat \<Rightarrow> int" where
  "budgetTokens maxTokens percentage =
     (let x = of_nat maxTokens * percentage in if 0 \<le> x then \<lfloor>x\<rfloor> else \<lceil>x\<rceil>)"

subsection \<open>Sampling fields\<close>

definition filterRequestFields :: "ClaudeRequest \<Rightarrow> ClaudeRequest" where
  "filterRequestFields request = request\<lparr>cr_TopK := 0, cr_TopP := 0, cr_Temperature := None\<rparr>"

definition processClaudeCodeSystemPrompt :: "ClaudeRequest \<Rightarrow> ClaudeRequest" where
  "processClaudeCodeSystemPrompt request = request\<lparr>cr_System := processSystem (cr_System request)\<rparr>"

definition addMetadataIfMissing :: "env \<Rightarrow> ClaudeRequest \<Rightarrow> ClaudeRequest" where
  "addMetadataIfMissing e request =
     (if cr_Metadata request \<noteq> RawEmpty then request
      else request\<lparr>cr_Metadata := generateMetadata e\<rparr>)"

text \<open>The pass-through conversion of a Claude request; it never fails.\<close>

definition ConvertClaudeRequest :: "env \<Rightarrow> ClaudeRequest \<Rightarrow> ClaudeRequest" where
  "ConvertClaudeRequest e request =
     (let r1 = processClaudeCodeSystemPrompt request;
          r2 = r1\<lparr>cr_System := fixSystemCacheControl (cr_System r1)\<rparr>;
          r3 = filterRequestFields r2;
          r4 = r3\<lparr>cr_Messages := addCacheControl (cr_Messages r3)\<rparr>
      in addMetadataIfMissing e r4)"

subsection \<open>Completion mode\<close>

text \<open>The zero value \<^verbatim>\<open>dto.ClaudeRequest{}\<close>.\<close>

definition emptyClaudeRequest :: ClaudeRequest where
  "emptyClaudeRequest = \<lparr>cr_Model = [], cr_Prompt = [], cr_System = SystemAny ANil,
     cr_Messages = [], cr_MaxTokens = 0, cr_MaxTokensToSample = 0, cr_StopSequences = None,
     cr_Temperature = None, cr_TopP = 0, cr_TopK = 0, cr_Tools = ToolsAny ANil,
     cr_ToolChoice = None, cr_Thinking = None, cr_Stream = False, cr_Metadata = RawEmpty\<rparr>"

fun promptLoop :: "env \<Rightarrow> Message list \<Rightarrow> string \<Rightarrow> string" where
  "promptLoop e [] prompt = prompt"
| "promptLoop e (message # messages) prompt =
     promptLoop e messages
       (if m_Role message = ''user'' then prompt @ [CHR 0x0A, CHR 0x0A] @ ''Human: '' @ StringContent e message
        else if m_Role message = ''assistant''
          then prompt @ [CHR 0x0A, CHR 0x0A] @ ''Assistant: '' @ StringContent e message
        else if m_Role message = ''system''
          then (if prompt = [] then StringContent e message else prompt)
        else prompt)"

definition RequestOpenAI2ClaudeComplete :: "env \<Rightarrow> GeneralOpenAIRequest \<Rightarrow> ClaudeRequest" where
  "RequestOpenAI2ClaudeComplete e textRequest =
     (let claudeRequest = emptyClaudeRequest\<lparr>
            cr_Model := or_Model textRequest,
            cr_Prompt := [],
            cr_StopSequences := None,
            cr_Temperature := or_Temperature textRequest,
            cr_TopP := or_TopP textRequest,
            cr_TopK := or_TopK textRequest,
            cr_Stream := or_Stream textRequest\<rparr>;
          claudeRequest = (if cr_MaxTokensToSample claudeRequest = 0
                           then claudeRequest\<lparr>cr_MaxTokensToSample := 4096\<rparr> else claudeRequest);
          prompt = promptLoop e (or_Messages textRequest) [] @ [CHR 0x0A, CHR 0x0A] @ ''Assistant:'';
          claudeRequest = claudeRequest\<lparr>cr_Prompt := prompt\<rparr>
      in filterRequestFields claudeRequest)"

subsection \<open>Message mode: tools\<close>

text \<open>
  One round of the loop over the caller's tools: \<open>Inr None\<close> is the \<^verbatim>\<open>continue\<close> of a
  tool whose parameters are not a mapping; \<^verbatim>\<open>params["type"].(string)\<close> panics on a
  \<^verbatim>\<open>type\<close> that is neither \<^verbatim>\<open>nil\<close> nor a string.
\<close>

definition otherKeys :: "object \<Rightarrow> object \<Rightarrow> object" where
  "otherKeys params schema =
     fold (\<lambda>(s, a) acc.
             if s = ''type'' \<or> s = ''properties'' \<or> s = ''required'' then acc
             else assign acc s a) params schema"

definition convertTool :: "ToolCallRequest \<Rightarrow> failure + Tool option" where
  "convertTool tool =
     (case tcr_Function tool of
        None \<Rightarrow> Inr (Some \<lparr>tool_Name = tcr_Name tool, tool_Description = tcr_Description tool,
                             tool_InputSchema = tcr_InputSchema tool\<rparr>)
      | Some function \<Rightarrow>
          (case asMap (fn_Parameters function) of
             None \<Rightarrow> Inr None
           | Some params \<Rightarrow>
               if index params ''type'' \<noteq> ANil \<and> asString (index params ''type'') = None
               then Inl (Panic ''interface conversion: interface {} is not string'')
               else
                 (let schema = (if index params ''type'' \<noteq> ANil
                                then [(''type'', index params ''type'')] else []);
                      schema = assign schema ''properties'' (index params ''properties'');
                      schema = assign schema ''required'' (index params ''required'');
                      schema = otherKeys params schema
                  in Inr (Some \<lparr>tool_Name = fn_Name function,
                                  tool_Description = fn_Description function,
                                  tool_InputSchema = schema\<rparr>))))"

fun toolLoop :: "ToolCallRequest list \<Rightarrow> claudeTool list \<Rightarrow> failure + claudeTool list" where
  "toolLoop [] claudeTools = Inr claudeTools"
| "toolLoop (tool # rest) claudeTools =
     (case convertTool tool of
        Inl f \<Rightarrow> Inl f
      | Inr None \<Rightarrow> toolLoop rest claudeTools
      | Inr (Some claudeTool) \<Rightarrow> toolLoop rest (claudeTools @ [ToolDef claudeTool]))"

definition stringField :: "object \<Rightarrow> string \<Rightarrow> string" where
  "stringField m k = (case asString (index m k) of Some v \<Rightarrow> (if v \<noteq> [] then v else []) | None \<Rightarrow> [])"

definition userLocation :: "RawMessage \<Rightarrow> ClaudeWebSearchUserLocation" where
  "userLocation raw =
     (let anthropicUserLocation = \<lparr>loc_Type = ''approximate'', loc_Timezone = [], loc_Country = [],
            loc_Region = [], loc_City = []\<rparr>
      in case UnmarshalMap raw of
           None \<Rightarrow> anthropicUserLocation
         | Some userLocationMap \<Rightarrow>
             (case asMap (index userLocationMap ''approximate'') of
                None \<Rightarrow> anthropicUserLocation
              | Some approximateData \<Rightarrow>
                  anthropicUserLocation\<lparr>
                    loc_Timezone := stringField approximateData ''timezone'',
                    loc_Country := stringField approximateData ''country'',
                    loc_Region := stringField approximateData ''region'',
                    loc_City := stringField approximateData ''city''\<rparr>))"

definition WebSearchMaxUsesLow :: int where "WebSearchMaxUsesLow = 1"
definition WebSearchMaxUsesMedium :: int where "WebSearchMaxUsesMedium = 5"
definition WebSearchMaxUsesHigh :: int where "WebSearchMaxUsesHigh = 10"

definition webSearchTool :: "WebSearchOptions \<Rightarrow> ClaudeWebSearchTool" where
  "webSearchTool opts =
     \<lparr>ws_Type = ''web_search_20250305'', ws_Name = ''web_search'',
      ws_MaxUses = (if wso_SearchContextSize opts = ''low'' then WebSearchMaxUsesLow
                    else if wso_SearchContextSize opts = ''medium'' then WebSearchMaxUsesMedium
                    else if wso_SearchContextSize opts = ''high'' then WebSearchMaxUsesHigh
                    else 0),
      ws_UserLocation = (if wso_UserLocation opts \<noteq> RawEmpty
                         then Some (userLocation (wso_UserLocation opts)) else None)\<rparr>"

definition mapToolChoice :: "any \<Rightarrow> bool option \<Rightarrow> ClaudeToolChoice option" where
  "mapToolChoice toolChoice parallelToolCalls =
     (let choice = (\<lambda>t n. \<lparr>tc_Type = t, tc_Name = n, tc_DisableParallelToolUse = False\<rparr>);
          claudeToolChoice =
            (case toolChoice of
               AStr toolChoiceStr \<Rightarrow>
                 if toolChoiceStr = ''auto'' then Some (choice ''auto'' [])
                 else if toolChoiceStr = ''required'' then Some (choice ''any'' [])
                 else if toolChoiceStr = ''none'' then Some (choice ''none'' [])
                 else None
             | AMap toolChoiceMap \<Rightarrow>
                 (case asMap (index toolChoiceMap ''function'') of
                    Some function \<Rightarrow>
                      (case asString (index function ''name'') of
                         Some toolName \<Rightarrow> Some (choice ''tool'' toolName)
                       | None \<Rightarrow> None)
                  | None \<Rightarrow> None)
             | _ \<Rightarrow> None)
      in case parallelToolCalls of
           None \<Rightarrow> claudeToolChoice
         | Some parallel \<Rightarrow>
             (let c = (case claudeToolChoice of None \<Rightarrow> choice ''auto'' [] | Some c \<Rightarrow> c)
              in Some (c\<lparr>tc_DisableParallelToolUse := \<not> parallel\<rparr>)))"

subsection \<open>Message mode: scalar fields\<close>

definition withToolChoice :: "GeneralOpenAIRequest \<Rightarrow> ClaudeRequest \<Rightarrow> ClaudeRequest" where
  "withToolChoice textRequest claudeRequest =
     (if or_ToolChoice textRequest \<noteq> ANil \<or> or_ParallelTooCalls textRequest \<noteq> None then
        (case mapToolChoice (or_ToolChoice textRequest) (or_ParallelTooCalls textRequest) of
           Some claudeToolChoice \<Rightarrow> claudeRequest\<lparr>cr_ToolChoice := Some claudeToolChoice\<rparr>
         | None \<Rightarrow> claudeRequest)
      else claudeRequest)"

definition withMaxTokens :: "env \<Rightarrow> GeneralOpenAIRequest \<Rightarrow> ClaudeRequest \<Rightarrow> ClaudeRequest" where
  "withMaxTokens e textRequest claudeRequest =
     (let claudeRequest =
            (if cr_MaxTokens claudeRequest = 0
             then claudeRequest\<lparr>cr_MaxTokens := uint (GetDefaultMaxTokens e (or_Model textRequest))\<rparr>
             else claudeRequest)
      in if cr_MaxTokens claudeRequest = 4096 then claudeRequest\<lparr>cr_MaxTokens := 16384\<rparr>
         else claudeRequest)"

definition enabledThinking :: "int \<Rightarrow> Thinking" where
  "enabledThinking budget = \<lparr>th_Type = ''enabled'', th_BudgetTokens = Some budget\<rparr>"

definition withThinkingAdapter :: "env \<Rightarrow> GeneralOpenAIRequest \<Rightarrow> ClaudeRequest \<Rightarrow> ClaudeRequest" where
  "withThinkingAdapter e textRequest claudeRequest =
     (if ThinkingAdapterEnabled e \<and> HasSuffix (or_Model textRequest) ''-thinking'' then
        (let claudeRequest =
               (if cr_MaxTokens claudeRequest < 1280 then claudeRequest\<lparr>cr_MaxTokens := 1280\<rparr>
                else claudeRequest);
             claudeRequest = claudeRequest\<lparr>
               cr_Thinking := Some (enabledThinking
                 (budgetTokens (cr_MaxTokens claudeRequest) (ThinkingAdapterBudgetTokensPercentage e))),
               cr_TopP := 0,
               cr_Temperature := Some 1\<rparr>
         in if \<not> ShouldPreserveThinkingSuffix e (or_Model textRequest)
            then claudeRequest\<lparr>cr_Model := TrimSuffix (or_Model textRequest) ''-thinking''\<rparr>
            else claudeRequest)
      else claudeRequest)"

definition withReasoningEffort :: "GeneralOpenAIRequest \<Rightarrow> ClaudeRequest \<Rightarrow> ClaudeRequest" where
  "withReasoningEffort textRequest claudeRequest =
     (if or_ReasoningEffort textRequest = ''low''
        then claudeRequest\<lparr>cr_Thinking := Some (enabledThinking 1280)\<rparr>
      else if or_ReasoningEffort textRequest = ''medium''
        then claudeRequest\<lparr>cr_Thinking := Some (enabledThinking 2048)\<rparr>
      else if or_ReasoningEffort textRequest = ''high''
        then claudeRequest\<lparr>cr_Thinking := Some (enabledThinking 4096)\<rparr>
      else claudeRequest)"

definition withReasoning :: "env \<Rightarrow> GeneralOpenAIRequest \<Rightarrow> ClaudeRequest \<Rightarrow> failure + ClaudeRequest" where
  "withReasoning e textRequest claudeRequest =
     (if or_Reasoning textRequest \<noteq> RawEmpty then
        (case UnmarshalReasoning e (or_Reasoning textRequest) of
           Inl err \<Rightarrow> Inl (Error err)
         | Inr budget \<Rightarrow>
             Inr (if budget > 0 then claudeRequest\<lparr>cr_Thinking := Some (enabledThinking budget)\<rparr>
                  else claudeRequest))
      else Inr claudeRequest)"

text \<open>
  The loop over a \<^verbatim>\<open>stop\<close> list: \<^verbatim>\<open>stop.(string)\<close> has no comma-ok form, so an element
  that is not a string is a run-time panic.
\<close>

fun stopLoop :: "any list \<Rightarrow> string list \<Rightarrow> failure + string list" where
  "stopLoop [] stopSequences = Inr stopSequences"
| "stopLoop (stop # rest) stopSequences =
     (case asString stop of
        Some s \<Rightarrow> stopLoop rest (stopSequences @ [s])
      | None \<Rightarrow> Inl (Panic ''interface conversion: interface {} is not string''))"

definition withStop :: "GeneralOpenAIRequest \<Rightarrow> ClaudeRequest \<Rightarrow> failure + ClaudeRequest" where
  "withStop textRequest claudeRequest =
     (case or_Stop textRequest of
        AStr s \<Rightarrow> Inr (claudeRequest\<lparr>cr_StopSequences := Some [s]\<rparr>)
      | ASlice stops \<Rightarrow>
          (case stopLoop stops [] of
             Inl f \<Rightarrow> Inl f
           | Inr stopSequences \<Rightarrow> Inr (claudeRequest\<lparr>cr_StopSequences := Some stopSequences\<rparr>))
      | _ \<Rightarrow> Inr claudeRequest)"

subsection \<open>Message mode: messages\<close>

definition SetStringContent :: "Message \<Rightarrow> string \<Rightarrow> Message" where
  "SetStringContent message s = message\<lparr>m_Content := AStr s\<rparr>"

text \<open>
  The first loop merges neighbours of one role. The loop variable \<^verbatim>\<open>message\<close> is a copy,
  so the role \<^verbatim>\<open>"user"\<close> written into \<^verbatim>\<open>textRequest.Messages[i]\<close> for an empty role does
  not reach \<^verbatim>\<open>fmtMessage\<close>.
\<close>

fun formatLoop :: "env \<Rightarrow> Message list \<Rightarrow> Message list \<Rightarrow> Message \<Rightarrow> Message list" where
  "formatLoop e [] formatMessages lastMessage = formatMessages"
| "formatLoop e (message # rest) formatMessages lastMessage =
     (let fmtMessage = \<lparr>m_Role = m_Role message, m_Content = m_Content message,
            m_ToolCalls = (if m_Role message = ''assistant'' \<and> m_ToolCalls message \<noteq> RawEmpty
                           then m_ToolCalls message else RawEmpty),
            m_ToolCallId = (if m_Role message = ''tool'' then m_ToolCallId message else [])\<rparr>;
          merge = (m_Role lastMessage = m_Role message \<and> m_Role lastMessage \<noteq> ''tool''
                   \<and> IsStringContent e lastMessage \<and> IsStringContent e message);
          fmtMessage = (if merge
                        then SetStringContent fmtMessage
                               (TrimQuotes (StringContent e lastMessage @ '' '' @ StringContent e message))
                        else fmtMessage);
          formatMessages = (if merge then butlast formatMessages else formatMessages);
          fmtMessage = (if m_Content fmtMessage = ANil then SetStringContent fmtMessage ''...''
                        else fmtMessage)
      in formatLoop e rest (formatMessages @ [fmtMessage]) fmtMessage)"

definition textBlock :: "string \<Rightarrow> ClaudeMediaMessage" where
  "textBlock t = emptyMedia\<lparr>mm_Type := ''text'', mm_Text := Some t\<rparr>"

definition toolResult :: "Message \<Rightarrow> ClaudeMediaMessage" where
  "toolResult message = emptyMedia\<lparr>mm_Type := ''tool_result'',
     mm_ToolUseId := m_ToolCallId message, mm_Content := m_Content message\<rparr>"

definition imageBlock :: "string \<Rightarrow> string \<Rightarrow> ClaudeMediaMessage" where
  "imageBlock mediaType dat = emptyMedia\<lparr>mm_Type := ''image'',
     mm_Source := Some \<lparr>src_Type = ''base64'', src_MediaType = mediaType, src_Data = dat\<rparr>\<rparr>"

text \<open>
  The loop over the parsed parts of a message; \<^verbatim>\<open>imageUrl.Url\<close> dereferences the result
  of \<^verbatim>\<open>GetImageMedia\<close> without a test.
\<close>

fun mediaLoop :: "env \<Rightarrow> MediaContent list \<Rightarrow> ClaudeMediaMessage list \<Rightarrow>
    failure + ClaudeMediaMessage list" where
  "mediaLoop e [] claudeMediaMessages = Inr claudeMediaMessages"
| "mediaLoop e (mediaMessage # rest) claudeMediaMessages =
     (if mc_Type mediaMessage = ''text''
      then mediaLoop e rest (claudeMediaMessages @
             [emptyMedia\<lparr>mm_Type := mc_Type mediaMessage, mm_Text := Some (mc_Text mediaMessage)\<rparr>])
      else
        (case GetImageMedia e mediaMessage of
           None \<Rightarrow> Inl (Panic ''invalid memory address or nil pointer dereference'')
         | Some url \<Rightarrow>
             if HasPrefix url ''http'' then
               (case GetFileBase64FromUrl e url of
                  Inl err \<Rightarrow> Inl (Error (''get file base64 from url failed: '' @ err))
                | Inr (mimeType, base64Data) \<Rightarrow>
                    mediaLoop e rest (claudeMediaMessages @ [imageBlock mimeType base64Data]))
             else
               (case DecodeBase64ImageData e url of
                  Inl err \<Rightarrow> Inl (Error err)
                | Inr (format, base64String) \<Rightarrow>
                    mediaLoop e rest
                      (claudeMediaMessages @ [imageBlock (''image/'' @ format) base64String]))))"

fun toolCallLoop :: "env \<Rightarrow> ToolCallRequest list \<Rightarrow> ClaudeMediaMessage list \<Rightarrow>
    failure + ClaudeMediaMessage list" where
  "toolCallLoop e [] claudeMediaMessages = Inr claudeMediaMessages"
| "toolCallLoop e (toolCall # rest) claudeMediaMessages =
     (case tcr_Function toolCall of
        None \<Rightarrow> Inl (Panic ''invalid memory address or nil pointer dereference'')
      | Some function \<Rightarrow>
          (case UnmarshalArguments e (fn_Arguments function) of
             None \<Rightarrow> toolCallLoop e rest claudeMediaMessages
           | Some inputObj \<Rightarrow>
               toolCallLoop e rest (claudeMediaMessages @
                 [emptyMedia\<lparr>mm_Type := ''tool_use'', mm_Id := tcr_ID toolCall,
                    mm_Name := fn_Name function, mm_Input := AMap inputObj\<rparr>])))"

text \<open>
  One round of the second loop, on \<^verbatim>\<open>claudeMessages\<close>, \<^verbatim>\<open>systemMessages\<close> and
  \<^verbatim>\<open>isFirstMessage\<close>. For a tool message after a user message,
  \<^verbatim>\<open>lastMessage.Content.([]dto.ClaudeMediaMessage)\<close> panics when the content of that user
  message is neither a string nor a slice of content blocks.
\<close>

definition systemText :: "env \<Rightarrow> Message \<Rightarrow> string" where
  "systemText e message =
     (if IsStringContent e message then StringContent e message
      else concat (map mc_Text (filter (\<lambda>ctx. mc_Type ctx = ''text'') (ParseContent e message))))"

definition messageStep :: "env \<Rightarrow> Message \<Rightarrow> ClaudeMessage list \<times> object list \<times> bool \<Rightarrow>
    failure + ClaudeMessage list \<times> object list \<times> bool" where
  "messageStep e message st =
     (case st of (claudeMessages, systemMessages, isFirstMessage) \<Rightarrow>
      if m_Role message = ''system'' then
        Inr (claudeMessages,
             systemMessages @ [[(''type'', AStr ''text''), (''text'', AStr (systemText e message))]],
             isFirstMessage)
      else
        (let claudeMessages =
               (if isFirstMessage \<and> m_Role message \<noteq> ''user''
                then claudeMessages @
                       [\<lparr>msg_Role = ''user'', msg_Content = ContentMedia [textBlock ''...'']\<rparr>]
                else claudeMessages)
         in
         if m_Role message = ''tool'' then
           (if claudeMessages \<noteq> [] \<and> msg_Role (last claudeMessages) = ''user'' then
              (let lastMessage = last claudeMessages;
                   lastMessage = (case msg_Content lastMessage of
                                    ContentAny (AStr content) \<Rightarrow>
                                      lastMessage\<lparr>msg_Content := ContentMedia [textBlock content]\<rparr>
                                  | _ \<Rightarrow> lastMessage)
               in case msg_Content lastMessage of
                    ContentMedia blocks \<Rightarrow>
                      Inr (butlast claudeMessages @
                             [lastMessage\<lparr>msg_Content := ContentMedia (blocks @ [toolResult message])\<rparr>],
                           systemMessages, False)
                  | ContentAny _ \<Rightarrow>
                      Inl (Panic ''interface conversion: interface {} is not []dto.ClaudeMediaMessage''))
            else
              Inr (claudeMessages @
                     [\<lparr>msg_Role = ''user'', msg_Content = ContentMedia [toolResult message]\<rparr>],
                   systemMessages, False))
         else if m_Role message = ''user'' \<or> m_Role message = ''assistant'' then
           Inr (claudeMessages @
                  [\<lparr>msg_Role = m_Role message, msg_Content = ContentAny (m_Content message)\<rparr>],
                systemMessages, False)
         else if IsStringContent e message \<and> m_ToolCalls message = RawEmpty then
           Inr (claudeMessages @
                  [\<lparr>msg_Role = m_Role message,
                    msg_Content = ContentAny (AStr (StringContent e message))\<rparr>],
                systemMessages, False)
         else
           (case mediaLoop e (ParseContent e message) [] of
              Inl f \<Rightarrow> Inl f
            | Inr claudeMediaMessages \<Rightarrow>
                (case (if m_ToolCalls message \<noteq> RawEmpty
                       then toolCallLoop e (ParseToolCalls e message) claudeMediaMessages
                       else Inr claudeMediaMessages) of
                   Inl f \<Rightarrow> Inl f
                 | Inr claudeMediaMessages \<Rightarrow>
                     Inr (claudeMessages @
                            [\<lparr>msg_Role = m_Role message,
                              msg_Content = ContentMedia claudeMediaMessages\<rparr>],
                          systemMessages, False)))))"

fun messageLoop :: "env \<Rightarrow> Message list \<Rightarrow> ClaudeMessage list \<times> object list \<times> bool \<Rightarrow>
    failure + ClaudeMessage list \<times> object list \<times> bool" where
  "messageLoop e [] st = Inr st"
| "messageLoop e (message # rest) st =
     (case messageStep e message st of
        Inl f \<Rightarrow> Inl f
      | Inr st' \<Rightarrow> messageLoop e rest st')"

subsection \<open>Message mode: the conversion\<close>

definition RequestOpenAI2ClaudeMessage :: "env \<Rightarrow> GeneralOpenAIRequest \<Rightarrow> failure + ClaudeRequest" where
  "RequestOpenAI2ClaudeMessage e textRequest =
     (case toolLoop (or_Tools textRequest) [] of
        Inl f \<Rightarrow> Inl f
      | Inr claudeTools \<Rightarrow>
          (let claudeTools =
                 (case or_WebSearchOptions textRequest of
                    None \<Rightarrow> claudeTools
                  | Some opts \<Rightarrow> claudeTools @ [WebSearchDef (webSearchTool opts)]);
               claudeRequest = emptyClaudeRequest\<lparr>
                 cr_Model := or_Model textRequest,
                 cr_MaxTokens := or_GetMaxTokens textRequest,
                 cr_StopSequences := None,
                 cr_Temperature := or_Temperature textRequest,
                 cr_TopP := or_TopP textRequest,
                 cr_TopK := or_TopK textRequest,
                 cr_Stream := or_Stream textRequest,
                 cr_Tools := ToolsSlice claudeTools\<rparr>;
               claudeRequest = withToolChoice textRequest claudeRequest;
               claudeRequest = withMaxTokens e textRequest claudeRequest;
               claudeRequest = withThinkingAdapter e textRequest claudeRequest;
               claudeRequest = withReasoningEffort textRequest claudeRequest
           in case withReasoning e textRequest claudeRequest of
                Inl f \<Rightarrow> Inl f
              | Inr claudeRequest \<Rightarrow>
                  (case withStop textRequest claudeRequest of
                     Inl f \<Rightarrow> Inl f
                   | Inr claudeRequest \<Rightarrow>
                       (let formatMessages = formatLoop e (or_Messages textRequest) []
                              \<lparr>m_Role = ''tool'', m_Content = ANil, m_ToolCalls = RawEmpty,
                               m_ToolCallId = []\<rparr>
                        in case messageLoop e formatMessages ([], [], True) of
                             Inl f \<Rightarrow> Inl f
                           | Inr (claudeMessages, systemMessages, isFirstMessage) \<Rightarrow>
                               (let claudeRequest =
                                      (if systemMessages \<noteq> []
                                       then claudeRequest\<lparr>cr_System := SystemMaps systemMessages\<rparr>
                                       else claudeRequest);
                                    claudeRequest = claudeRequest\<lparr>cr_Prompt := []\<rparr>;
                                    claudeRequest = processClaudeCodeSystemPrompt claudeRequest;
                                    claudeRequest = claudeRequest\<lparr>cr_Messages :=
                                                      addCacheControl claudeMessages\<rparr>
                                in Inr (filterRequestFields claudeRequest))))))"

text \<open>
  \<^verbatim>\<open>ConvertOpenAIRequest\<close> chooses by the request mode; the nil request of the source is
  not a value of the record.
\<close>

definition RequestModeCompletion :: nat where "RequestModeCompletion = 1"
definition RequestModeMessage :: nat where "RequestModeMessage = 2"

definition ConvertOpenAIRequest :: "nat \<Rightarrow> env \<Rightarrow> GeneralOpenAIRequest \<Rightarrow> failure + ClaudeRequest" where
  "ConvertOpenAIRequest requestMode e request =
     (if requestMode = RequestModeCompletion then Inr (RequestOpenAI2ClaudeComplete e request)
      else RequestOpenAI2ClaudeMessage e request)"

text \<open>\<^verbatim>\<open>Init\<close>: the request mode follows from the upstream model name.\<close>

definition Init :: "string \<Rightarrow> nat" where
  "Init upstreamModelName =
     (if HasPrefix upstreamModelName ''claude-2'' \<or> HasPrefix upstreamModelName ''claude-instant''
      then RequestModeCompletion else RequestModeMessage)"

section \<open>Stream reducer\<close>

record Usage =
  PromptTokens :: int
  CompletionTokens :: int
  TotalTokens :: int
  CachedTokens :: int
  CachedCreationTokens :: int
  ClaudeCacheCreation5mTokens :: int
  ClaudeCacheCreation1hTokens :: int

definition emptyUsage :: Usage where
  "emptyUsage = \<lparr>PromptTokens = 0, CompletionTokens = 0, TotalTokens = 0, CachedTokens = 0,
     CachedCreationTokens = 0, ClaudeCacheCreation5mTokens = 0, ClaudeCacheCreation1hTokens = 0\<rparr>"

record ClaudeError =
  err_Type :: string
  err_Message :: string

text \<open>
  A decoded stream frame. \<open>resp_Error\<close> is what \<^verbatim>\<open>GetClaudeError\<close> returns; \<open>resp_Usage\<close>,
  \<open>resp_Index\<close>, \<open>resp_ContentBlock\<close>, \<open>resp_Delta\<close> and \<open>resp_Message\<close> are pointers,
  \<^verbatim>\<open>nil\<close> when the frame has no such member.
\<close>

record ClaudeResponse =
  resp_Type :: string
  resp_Completion :: string
  resp_StopReason :: string
  resp_Model :: string
  resp_Error :: "ClaudeError option"
  resp_Usage :: "ClaudeUsage option"
  resp_Index :: "int option"
  resp_ContentBlock :: "ClaudeMediaMessage option"
  resp_Delta :: "ClaudeMediaMessage option"
  resp_Message :: "ClaudeMediaMessage option"

record ToolCallResponse =
  tr_Index :: "int option"
  tr_ID :: string
  tr_Type :: string
  tr_Name :: string
  tr_Arguments :: string

record ChoiceDelta =
  d_Content :: "string option"
  d_ReasoningContent :: "string option"
  d_Role :: string
  d_ToolCalls :: "ToolCallResponse list"

record ChatCompletionsStreamResponseChoice =
  ch_Delta :: ChoiceDelta
  ch_FinishReason :: "string option"

record ChatCompletionsStreamResponse =
  s_Id :: string
  s_Object :: string
  s_Created :: int
  s_Model :: string
  s_Choices :: "ChatCompletionsStreamResponseChoice list"

text \<open>The accumulator of one stream.\<close>

record ClaudeResponseInfo =
  ci_ResponseId :: string
  ci_Created :: int
  ci_Model :: string
  ci_ResponseText :: string
  ci_Usage :: Usage
  ci_Done :: bool

datatype RelayFormat = RelayFormatOpenAI | RelayFormatClaude | RelayFormatOther

record RelayInfo =
  ri_RelayFormat :: RelayFormat
  ri_UpstreamModelName :: string
  ri_ShouldIncludeUsage :: bool
  ri_PromptTokens :: int

text \<open>
  What the handler writes to the caller, in order: \<^verbatim>\<open>helper.ObjectData\<close> of a chunk (of a
  nil chunk when the reducer produced none), \<^verbatim>\<open>helper.ClaudeChunkData\<close> of a frame, the
  chunk of \<^verbatim>\<open>helper.GenerateFinalUsageResponse\<close>, and \<^verbatim>\<open>helper.Done\<close>.
\<close>

datatype sent =
    ObjectData "ChatCompletionsStreamResponse option"
  | ClaudeChunkData ClaudeResponse
  | FinalUsageResponse string int string Usage
  | Done

text \<open>How a stream stops early: the two errors the handler returns, or a panic.\<close>

datatype abort = BadResponseBody | WithClaudeError ClaudeError | Panicked string

text \<open>
  The collaborators of the response side: the token counter
  \<^verbatim>\<open>service.ResponseText2Usage(c, text, model, promptTokens)\<close>, the response id and the clock.
\<close>

record services =
  ResponseText2Usage :: "string \<Rightarrow> string \<Rightarrow> int \<Rightarrow> Usage"
  GetResponseID :: string
  GetTimestamp :: int

definition stopReasonClaude2OpenAI :: "string \<Rightarrow> string" where
  "stopReasonClaude2OpenAI reason =
     (if reason = ''stop_sequence'' then ''stop''
      else if reason = ''end_turn'' then ''stop''
      else if reason = ''max_tokens'' then ''length''
      else if reason = ''tool_use'' then ''tool_calls''
      else reason)"

definition emptyChoice :: ChatCompletionsStreamResponseChoice where
  "emptyChoice = \<lparr>ch_Delta = \<lparr>d_Content = None, d_ReasoningContent = None, d_Role = [],
     d_ToolCalls = []\<rparr>, ch_FinishReason = None\<rparr>"

definition withFinishReason :: "string \<Rightarrow> ChatCompletionsStreamResponseChoice \<Rightarrow>
    ChatCompletionsStreamResponseChoice" where
  "withFinishReason reason choice =
     (let finishReason = stopReasonClaude2OpenAI reason
      in if finishReason \<noteq> ''null'' then choice\<lparr>ch_FinishReason := Some finishReason\<rparr>
         else choice)"

text \<open>The end of \<^verbatim>\<open>StreamResponseClaude2OpenAI\<close>, from \<^verbatim>\<open>if len(tools) > 0\<close> on.\<close>

definition chunk :: "ChatCompletionsStreamResponse \<Rightarrow> ToolCallResponse list \<Rightarrow>
    ChatCompletionsStreamResponseChoice \<Rightarrow> abort + ChatCompletionsStreamResponse option" where
  "chunk response tools choice =
     (let choice = (if tools \<noteq> []
                    then choice\<lparr>ch_Delta := (ch_Delta choice)\<lparr>d_Content := None, d_ToolCalls := tools\<rparr>\<rparr>
                    else choice)
      in Inr (Some (response\<lparr>s_Choices := s_Choices response @ [choice]\<rparr>)))"

definition nilDereference :: abort where
  "nilDereference = Panicked ''invalid memory address or nil pointer dereference''"

definition StreamResponseClaude2OpenAI :: "nat \<Rightarrow> ClaudeResponse \<Rightarrow>
    abort + ChatCompletionsStreamResponse option" where
  "StreamResponseClaude2OpenAI reqMode claudeResponse =
     (let response = \<lparr>s_Id = [], s_Object = ''chat.completion.chunk'', s_Created = 0,
            s_Model = resp_Model claudeResponse, s_Choices = []\<rparr>;
          fcIdx = (case resp_Index claudeResponse of
                     None \<Rightarrow> 0
                   | Some i \<Rightarrow> if int64 (i - 1) < 0 then 0 else int64 (i - 1));
          choice = emptyChoice
      in
      if reqMode = RequestModeCompletion then
        chunk response []
          (withFinishReason (resp_StopReason claudeResponse)
             (choice\<lparr>ch_Delta := (ch_Delta choice)\<lparr>d_Content := Some (resp_Completion claudeResponse)\<rparr>\<rparr>))
      else if resp_Type claudeResponse = ''message_start'' then
        (case resp_Message claudeResponse of
           None \<Rightarrow> Inl nilDereference
         | Some message \<Rightarrow>
             chunk (response\<lparr>s_Id := mm_Id message, s_Model := mm_Model message\<rparr>) []
               (choice\<lparr>ch_Delta := (ch_Delta choice)\<lparr>d_Content := Some [], d_Role := ''assistant''\<rparr>\<rparr>))
      else if resp_Type claudeResponse = ''content_block_start'' then
        (case resp_ContentBlock claudeResponse of
           Some contentBlock \<Rightarrow>
             chunk response
               (if mm_Type contentBlock = ''tool_use''
                then [\<lparr>tr_Index = Some fcIdx, tr_ID = mm_Id contentBlock, tr_Type = ''function'',
                       tr_Name = mm_Name contentBlock, tr_Arguments = []\<rparr>]
                else [])
               choice
         | None \<Rightarrow> Inr None)
      else if resp_Type claudeResponse = ''content_block_delta'' then
        (case resp_Delta claudeResponse of
           Some delta \<Rightarrow>
             (let choice = choice\<lparr>ch_Delta := (ch_Delta choice)\<lparr>d_Content := mm_Text delta\<rparr>\<rparr>
              in
              if mm_Type delta = ''input_json_delta'' then
                (case mm_PartialJson delta of
                   None \<Rightarrow> Inl nilDereference
                 | Some partialJson \<Rightarrow>
                     chunk response
                       [\<lparr>tr_Index = Some fcIdx, tr_ID = [], tr_Type = ''function'', tr_Name = [],
                         tr_Arguments = partialJson\<rparr>]
                       choice)
              else if mm_Type delta = ''signature_delta'' then
                chunk response []
                  (choice\<lparr>ch_Delta := (ch_Delta choice)\<lparr>d_ReasoningContent := Some [CHR 0x0A]\<rparr>\<rparr>)
              else if mm_Type delta = ''thinking_delta'' then
                chunk response []
                  (choice\<lparr>ch_Delta := (ch_Delta choice)\<lparr>d_ReasoningContent := mm_Thinking delta\<rparr>\<rparr>)
              else chunk response [] choice)
         | None \<Rightarrow> chunk response [] choice)
      else if resp_Type claudeResponse = ''message_delta'' then
        (case resp_Delta claudeResponse of
           None \<Rightarrow> Inl nilDereference
         | Some delta \<Rightarrow>
             (case mm_StopReason delta of
                None \<Rightarrow> Inl nilDereference
              | Some stopReason \<Rightarrow> chunk response [] (withFinishReason stopReason choice)))
      else if resp_Type claudeResponse = ''message_stop'' then Inr None
      else Inr None)"

text \<open>
  \<^verbatim>\<open>FormatClaudeResponseInfo\<close> updates the accumulator and, when it is given a chunk, the
  chunk's id, time and model; the result holds the boolean it returns. The token counts are
  Go \<^verbatim>\<open>int\<close>s, and their sum wraps around.
\<close>

definition appendDelta :: "ClaudeMediaMessage \<Rightarrow> ClaudeResponseInfo \<Rightarrow> ClaudeResponseInfo" where
  "appendDelta delta claudeInfo =
     (let claudeInfo = (case mm_Text delta of
                          Some t \<Rightarrow> claudeInfo\<lparr>ci_ResponseText := ci_ResponseText claudeInfo @ t\<rparr>
                        | None \<Rightarrow> claudeInfo)
      in case mm_Thinking delta of
           Some t \<Rightarrow> claudeInfo\<lparr>ci_ResponseText := ci_ResponseText claudeInfo @ t\<rparr>
         | None \<Rightarrow> claudeInfo)"

definition stamp :: "ClaudeResponseInfo \<Rightarrow> ChatCompletionsStreamResponse option \<Rightarrow>
    ChatCompletionsStreamResponse option" where
  "stamp claudeInfo oaiResponse =
     (case oaiResponse of
        None \<Rightarrow> None
      | Some r \<Rightarrow> Some (r\<lparr>s_Id := ci_ResponseId claudeInfo, s_Created := ci_Created claudeInfo,
                           s_Model := ci_Model claudeInfo\<rparr>))"

definition FormatClaudeResponseInfo :: "nat \<Rightarrow> ClaudeResponse \<Rightarrow>
    ChatCompletionsStreamResponse option \<Rightarrow> ClaudeResponseInfo \<Rightarrow>
    abort + bool \<times> ChatCompletionsStreamResponse option \<times> ClaudeResponseInfo" where
  "FormatClaudeResponseInfo requestMode claudeResponse oaiResponse claudeInfo =
     (let done = (\<lambda>claudeInfo. Inr (True, stamp claudeInfo oaiResponse, claudeInfo))
      in
      if requestMode = RequestModeCompletion then
        done (claudeInfo\<lparr>ci_ResponseText := ci_ResponseText claudeInfo @ resp_Completion claudeResponse\<rparr>)
      else if resp_Type claudeResponse = ''message_start'' then
        (case resp_Message claudeResponse of
           None \<Rightarrow> Inl nilDereference
         | Some message \<Rightarrow>
             (case mm_Usage message of
                None \<Rightarrow> Inl nilDereference
              | Some usage \<Rightarrow>
                  done (claudeInfo\<lparr>
                    ci_ResponseId := mm_Id message,
                    ci_Model := mm_Model message,
                    ci_Usage := (ci_Usage claudeInfo)\<lparr>
                      PromptTokens := InputTokens usage,
                      CachedTokens := CacheReadInputTokens usage,
                      CachedCreationTokens := CacheCreationInputTokens usage,
                      ClaudeCacheCreation5mTokens := GetCacheCreation5mTokens usage,
                      ClaudeCacheCreation1hTokens := GetCacheCreation1hTokens usage,
                      CompletionTokens := OutputTokens usage\<rparr>\<rparr>)))
      else if resp_Type claudeResponse = ''content_block_delta'' then
        (case resp_Delta claudeResponse of
           None \<Rightarrow> Inl nilDereference
         | Some delta \<Rightarrow> done (appendDelta delta claudeInfo))
      else if resp_Type claudeResponse = ''message_delta'' then
        (case resp_Usage claudeResponse of
           None \<Rightarrow> Inl nilDereference
         | Some usage \<Rightarrow>
             (let promptTokens = (if InputTokens usage > 0 then InputTokens usage
                                  else PromptTokens (ci_Usage claudeInfo))
              in done (claudeInfo\<lparr>
                   ci_Usage := (ci_Usage claudeInfo)\<lparr>
                     PromptTokens := promptTokens,
                     CompletionTokens := OutputTokens usage,
                     TotalTokens := int64 (promptTokens + OutputTokens usage)\<rparr>,
                   ci_Done := True\<rparr>)))
      else if resp_Type claudeResponse = ''content_block_start'' then done claudeInfo
      else Inr (False, oaiResponse, claudeInfo))"

text \<open>
  The error envelope of a frame, when the test
  \<^verbatim>\<open>claudeError != nil && claudeError.Type != ""\<close> holds.
\<close>

definition claudeErrorOf :: "ClaudeResponse \<Rightarrow> ClaudeError option" where
  "claudeErrorOf claudeResponse =
     (case resp_Error claudeResponse of
        Some claudeError \<Rightarrow> if err_Type claudeError \<noteq> [] then Some claudeError else None
      | None \<Rightarrow> None)"

text \<open>
  The state of one stream: the relay info (the handler writes its upstream model name),
  the accumulator, and what has been written to the caller so far.
\<close>

record stream =
  st_info :: RelayInfo
  st_claudeInfo :: ClaudeResponseInfo
  st_sent :: "sent list"

text \<open>A frame as it comes from the scanner: it decodes or it does not.\<close>

datatype frame = Undecodable | Decoded ClaudeResponse

definition HandleStreamResponseData :: "nat \<Rightarrow> frame \<Rightarrow> stream \<Rightarrow> abort + stream" where
  "HandleStreamResponseData requestMode dat st =
     (case dat of
        Undecodable \<Rightarrow> Inl BadResponseBody
      | Decoded claudeResponse \<Rightarrow>
          (case claudeErrorOf claudeResponse of
             Some claudeError \<Rightarrow> Inl (WithClaudeError claudeError)
           | None \<Rightarrow>
               if ri_RelayFormat (st_info st) = RelayFormatClaude then
                 (case FormatClaudeResponseInfo requestMode claudeResponse None (st_claudeInfo st) of
                    Inl p \<Rightarrow> Inl p
                  | Inr (ok, oaiResponse, claudeInfo) \<Rightarrow>
                      (let info =
                             (if requestMode \<noteq> RequestModeCompletion
                                 \<and> resp_Type claudeResponse = ''message_start''
                              then (case resp_Message claudeResponse of
                                      Some message \<Rightarrow>
                                        (st_info st)\<lparr>ri_UpstreamModelName := mm_Model message\<rparr>
                                    | None \<Rightarrow> st_info st)
                              else st_info st)
                       in Inr (st\<lparr>st_info := info, st_claudeInfo := claudeInfo,
                                 st_sent := st_sent st @ [ClaudeChunkData claudeResponse]\<rparr>)))
               else if ri_RelayFormat (st_info st) = RelayFormatOpenAI then
                 (case StreamResponseClaude2OpenAI requestMode claudeResponse of
                    Inl p \<Rightarrow> Inl p
                  | Inr response \<Rightarrow>
                      (case FormatClaudeResponseInfo requestMode claudeResponse response
                              (st_claudeInfo st) of
                         Inl p \<Rightarrow> Inl p
                       | Inr (ok, response, claudeInfo) \<Rightarrow>
                           if \<not> ok then Inr (st\<lparr>st_claudeInfo := claudeInfo\<rparr>)
                           else Inr (st\<lparr>st_claudeInfo := claudeInfo,
                                       st_sent := st_sent st @ [ObjectData response]\<rparr>)))
               else Inr st))"

definition HandleStreamFinalResponse :: "services \<Rightarrow> nat \<Rightarrow> stream \<Rightarrow> stream" where
  "HandleStreamFinalResponse sv requestMode st =
     (let info = st_info st;
          claudeInfo = st_claudeInfo st;
          claudeInfo =
            (if requestMode = RequestModeCompletion then
               claudeInfo\<lparr>ci_Usage := ResponseText2Usage sv (ci_ResponseText claudeInfo)
                 (ri_UpstreamModelName info) (ri_PromptTokens info)\<rparr>
             else if CompletionTokens (ci_Usage claudeInfo) = 0 \<or> \<not> ci_Done claudeInfo then
               claudeInfo\<lparr>ci_Usage := ResponseText2Usage sv (ci_ResponseText claudeInfo)
                 (ri_UpstreamModelName info) (PromptTokens (ci_Usage claudeInfo))\<rparr>
             else claudeInfo);
          out =
            (if ri_RelayFormat info = RelayFormatOpenAI then
               (if ri_ShouldIncludeUsage info
                then [FinalUsageResponse (ci_ResponseId claudeInfo) (ci_Created claudeInfo)
                        (ri_UpstreamModelName info) (ci_Usage claudeInfo)]
                else []) @ [Done]
             else [])
      in st\<lparr>st_claudeInfo := claudeInfo, st_sent := st_sent st @ out\<rparr>)"

text \<open>
  The scanner hands the frames to the handler one by one, in order, and stops at the first
  frame for which the handler returns an error.
\<close>

fun streamLoop :: "nat \<Rightarrow> frame list \<Rightarrow> stream \<Rightarrow> abort + stream" where
  "streamLoop requestMode [] st = Inr st"
| "streamLoop requestMode (dat # rest) st =
     (case HandleStreamResponseData requestMode dat st of
        Inl err \<Rightarrow> Inl err
      | Inr st' \<Rightarrow> streamLoop requestMode rest st')"

definition newStream :: "services \<Rightarrow> RelayInfo \<Rightarrow> stream" where
  "newStream sv info =
     \<lparr>st_info = info,
      st_claudeInfo = \<lparr>ci_ResponseId = GetResponseID sv, ci_Created = GetTimestamp sv,
        ci_Model = ri_UpstreamModelName info, ci_ResponseText = [], ci_Usage = emptyUsage,
        ci_Done = False\<rparr>,
      st_sent = []\<rparr>"

text \<open>
  \<^verbatim>\<open>ClaudeStreamHandler\<close>: the error of the loop, or the stream after the final response,
  whose accumulator holds the usage the handler returns.
\<close>

definition ClaudeStreamHandler :: "services \<Rightarrow> RelayInfo \<Rightarrow> frame list \<Rightarrow> nat \<Rightarrow> abort + stream" where
  "ClaudeStreamHandler sv info frames requestMode =
     (case streamLoop requestMode frames (newStream sv info) of
        Inl err \<Rightarrow> Inl err
      | Inr st \<Rightarrow> Inr (HandleStreamFinalResponse sv requestMode st))"

section \<open>Observations and sample inputs\<close>

text \<open>
  The text of the first element of a system value, read the way the injector reads it in
  each shape; a plain string is its own text.
\<close>

definition systemFirstText :: "system \<Rightarrow> string option" where
  "systemFirstText sys =
     (case sys of
        SystemAny (AStr s) \<Rightarrow> Some s
      | SystemAny (ASlice (first # _)) \<Rightarrow>
          (case asMap first of
             Some firstMap \<Rightarrow> asString (index firstMap ''text'')
           | None \<Rightarrow> None)
      | SystemMaps (firstMap # _) \<Rightarrow> asString (index firstMap ''text'')
      | SystemMedia (first # _) \<Rightarrow> mm_Text first
      | _ \<Rightarrow> None)"

text \<open>A text block as a decoded mapping, and two system values a client can send.\<close>

definition textMap :: "string \<Rightarrow> object" where
  "textMap t = [(''type'', AStr ''text''), (''text'', AStr t)]"

definition terseSystem :: system where
  "terseSystem = SystemAny (AStr ''Be terse.'')"

definition mixedSystem :: system where
  "mixedSystem = SystemAny (ASlice [AMap (textMap ''A''), AStr ''B''])"

text \<open>
  A marker of a content block "decodes to an ephemeral marker without ttl": the test the
  fixer makes on a marshalled marker, and on the marker of a decoded mapping.
\<close>

definition markerNeedsFix :: "RawMessage \<Rightarrow> bool" where
  "markerNeedsFix raw = (case UnmarshalMap raw of Some m \<Rightarrow> needsFix m | None \<Rightarrow> False)"

definition mapNeedsFix :: "object \<Rightarrow> bool" where
  "mapNeedsFix contentMap =
     (case asMap (index contentMap ''cache_control'') of
        Some cacheControlMap \<Rightarrow> exists contentMap ''cache_control'' \<and> needsFix cacheControlMap
      | None \<Rightarrow> False)"

text \<open>Two markers and a conversation that carries them in both content shapes.\<close>

definition bareMarker :: any where
  "bareMarker = AMap [(''type'', AStr ''ephemeral'')]"

definition shortMarker :: any where
  "shortMarker = AMap [(''type'', AStr ''ephemeral''), (''ttl'', AStr ''5m'')]"

definition cachedTurns :: "ClaudeMessage list" where
  "cachedTurns =
     [\<lparr>msg_Role = ''user'', msg_Content = ContentMedia
         [(textBlock ''a'')\<lparr>mm_CacheControl := RawJson bareMarker\<rparr>,
          (textBlock ''b'')\<lparr>mm_CacheControl := RawJson shortMarker\<rparr>]\<rparr>,
      \<lparr>msg_Role = ''assistant'', msg_Content = ContentAny (AStr ''ok'')\<rparr>,
      \<lparr>msg_Role = ''user'', msg_Content = ContentAny (ASlice
         [AMap (textMap ''c'' @ [(''cache_control'', bareMarker)]),
          AMap (textMap ''d'' @ [(''cache_control'', shortMarker)])])\<rparr>]"

text \<open>
  Settings and collaborators for the concrete examples: the thinking adaptor is enabled
  with a budget of 80 percent, the default of every model is 8192 tokens, a message has
  string content when its content is a string, and no image can be resolved.
\<close>

definition exampleEnv :: env where
  "exampleEnv = \<lparr>
     GetDefaultMaxTokens = (\<lambda>model. 8192),
     ThinkingAdapterEnabled = True,
     ThinkingAdapterBudgetTokensPercentage = 4 / 5,
     ShouldPreserveThinkingSuffix = (\<lambda>model. False),
     UnmarshalReasoning = (\<lambda>raw. Inr 0),
     IsStringContent = (\<lambda>message. asString (m_Content message) \<noteq> None),
     StringContent = (\<lambda>message. case asString (m_Content message) of Some s \<Rightarrow> s | None \<Rightarrow> []),
     ParseContent = (\<lambda>message. []),
     ParseToolCalls = (\<lambda>message. []),
     GetImageMedia = (\<lambda>mediaMessage. None),
     GetFileBase64FromUrl = (\<lambda>url. Inl ''no network''),
     DecodeBase64ImageData = (\<lambda>url. Inl ''no image''),
     UnmarshalArguments = (\<lambda>arguments. None),
     generateMetadata = RawJson (AMap [(''user_id'', AStr ''0_0'')])\<rparr>"

definition userText :: "string \<Rightarrow> Message" where
  "userText t = \<lparr>m_Role = ''user'', m_Content = AStr t, m_ToolCalls = RawEmpty, m_ToolCallId = []\<rparr>"

text \<open>The zero value \<^verbatim>\<open>dto.GeneralOpenAIRequest{}\<close>, and requests built from it.\<close>

definition emptyOpenAIRequest :: GeneralOpenAIRequest where
  "emptyOpenAIRequest = \<lparr>or_Model = [], or_Messages = [], or_GetMaxTokens = 0,
     or_Temperature = None, or_TopP = 0, or_TopK = 0, or_Stream = False, or_Tools = [],
     or_WebSearchOptions = None, or_ToolChoice = ANil, or_ParallelTooCalls = None,
     or_ReasoningEffort = [], or_Reasoning = RawEmpty, or_Stop = ANil\<rparr>"

definition thinkingRequest :: GeneralOpenAIRequest where
  "thinkingRequest = emptyOpenAIRequest\<lparr>or_Model := ''x-thinking'',
     or_Messages := [userText ''hi''], or_GetMaxTokens := 1000,
     or_Temperature := Some (7 / 10), or_TopP := 9 / 10, or_TopK := 40\<rparr>"

definition smallRequest :: GeneralOpenAIRequest where
  "smallRequest = emptyOpenAIRequest\<lparr>or_Model := ''claude-sonnet-4-thinking'',
     or_Messages := [userText ''hi''], or_GetMaxTokens := 512\<rparr>"

definition plainRequest :: GeneralOpenAIRequest where
  "plainRequest = emptyOpenAIRequest\<lparr>or_Model := ''claude-sonnet-4'',
     or_Messages := [userText ''hi''], or_Temperature := Some (1 / 2), or_TopP := 9 / 10,
     or_TopK := 40\<rparr>"

definition badStopRequest :: GeneralOpenAIRequest where
  "badStopRequest = emptyOpenAIRequest\<lparr>or_Model := ''claude-sonnet-4'',
     or_Messages := [userText ''hi''], or_Stop := ASlice [AStr ''END'', ANum 1]\<rparr>"

definition sampledClaudeRequest :: ClaudeRequest where
  "sampledClaudeRequest = emptyClaudeRequest\<lparr>cr_Model := ''claude-sonnet-4'',
     cr_Messages := [\<lparr>msg_Role = ''user'', msg_Content = ContentAny (AStr ''hi'')\<rparr>],
     cr_MaxTokens := 1024, cr_Temperature := Some (1 / 2), cr_TopP := 9 / 10, cr_TopK := 40\<rparr>"

text \<open>
  A chunk with one choice and no tool call, and the frames of a short stream: the zero
  value of a frame with its type, a start, text deltas, the closing delta and the stop.
\<close>

definition deltaChunk :: "string \<Rightarrow> int \<Rightarrow> string \<Rightarrow> string option \<Rightarrow> string \<Rightarrow> string option \<Rightarrow>
    ChatCompletionsStreamResponse" where
  "deltaChunk ident created model content role finishReason =
     \<lparr>s_Id = ident, s_Object = ''chat.completion.chunk'', s_Created = created, s_Model = model,
      s_Choices = [\<lparr>ch_Delta = \<lparr>d_Content = content, d_ReasoningContent = None, d_Role = role,
                      d_ToolCalls = []\<rparr>,
                    ch_FinishReason = finishReason\<rparr>]\<rparr>"

definition frameOf :: "string \<Rightarrow> ClaudeResponse" where
  "frameOf eventType = \<lparr>resp_Type = eventType, resp_Completion = [], resp_StopReason = [],
     resp_Model = [], resp_Error = None, resp_Usage = None, resp_Index = None,
     resp_ContentBlock = None, resp_Delta = None, resp_Message = None\<rparr>"

definition usageOf :: "int \<Rightarrow> int \<Rightarrow> ClaudeUsage" where
  "usageOf inputTokens outputTokens = \<lparr>InputTokens = inputTokens, OutputTokens = outputTokens,
     CacheReadInputTokens = 0, CacheCreationInputTokens = 0, GetCacheCreation5mTokens = 0,
     GetCacheCreation1hTokens = 0\<rparr>"

definition messageStart :: ClaudeResponse where
  "messageStart = (frameOf ''message_start'')\<lparr>resp_Message := Some (emptyMedia\<lparr>
     mm_Id := ''msg_1'', mm_Model := ''claude-sonnet-4'', mm_Usage := Some (usageOf 10 1)\<rparr>)\<rparr>"

definition textDelta :: "string \<Rightarrow> ClaudeResponse" where
  "textDelta t = (frameOf ''content_block_delta'')\<lparr>resp_Index := Some 0,
     resp_Delta := Some (emptyMedia\<lparr>mm_Type := ''text_delta'', mm_Text := Some t\<rparr>)\<rparr>"

definition messageDelta :: ClaudeResponse where
  "messageDelta = (frameOf ''message_delta'')\<lparr>
     resp_Delta := Some (emptyMedia\<lparr>mm_StopReason := Some ''end_turn''\<rparr>),
     resp_Usage := Some (usageOf 0 2)\<rparr>"

definition messageStop :: ClaudeResponse where
  "messageStop = frameOf ''message_stop''"

definition shortStream :: "frame list" where
  "shortStream = map Decoded [messageStart, textDelta ''a'', textDelta ''b'', messageDelta, messageStop]"

definition pingFrame :: ClaudeResponse where
  "pingFrame = frameOf ''ping''"

definition errorFrame :: ClaudeResponse where
  "errorFrame = (frameOf ''error'')\<lparr>resp_Error :=
     Some \<lparr>err_Type = ''overloaded_error'', err_Message = ''Overloaded''\<rparr>\<rparr>"

text \<open>
  A relay in the OpenAI format that does or does not ask for usage, and services whose
  token counter counts the characters of the text.
\<close>

definition openAIInfo :: "bool \<Rightarrow> RelayInfo" where
  "openAIInfo includeUsage = \<lparr>ri_RelayFormat = RelayFormatOpenAI,
     ri_UpstreamModelName = ''claude-sonnet-4'', ri_ShouldIncludeUsage = includeUsage,
     ri_PromptTokens = 0\<rparr>"

definition exampleServices :: services where
  "exampleServices = \<lparr>
     ResponseText2Usage = (\<lambda>text model promptTokens. emptyUsage\<lparr>PromptTokens := promptTokens,
       CompletionTokens := int (length text), TotalTokens := promptTokens + int (length text)\<rparr>),
     GetResponseID = ''chatcmpl-1'',
     GetTimestamp = 1700000000\<rparr>"

text \<open>The event types the reducer knows in message mode.\<close>

definition knownEventTypes :: "string set" where
  "knownEventTypes = {''message_start'', ''content_block_start'', ''content_block_delta'',
     ''message_delta'', ''message_stop''}"

text \<open>
  A stream state at the end of a stream whose text is \<^verbatim>\<open>ab\<close>, with 10 prompt tokens and a
  given completion count and completion flag.
\<close>

definition accumulated :: "int \<Rightarrow> bool \<Rightarrow> stream" where
  "accumulated completionTokens finished =
     \<lparr>st_info = openAIInfo True,
      st_claudeInfo = \<lparr>ci_ResponseId = ''msg_1'', ci_Created = 1700000000,
        ci_Model = ''claude-sonnet-4'', ci_ResponseText = ''ab'',
        ci_Usage = emptyUsage\<lparr>PromptTokens := 10, CompletionTokens := completionTokens,
          TotalTokens := 10 + completionTokens\<rparr>,
        ci_Done = finished\<rparr>,
      st_sent = []\<rparr>"

section \<open>System-prompt injector: properties\<close>

lemma processSystem_first:
  "systemFirstText (processSystem sys) = Some defaultSystemMessage"
  by (cases sys rule: processSystem.cases)
     (auto simp: systemFirstText_def firstIsNotPrompt_def claudeCodeSystemPrompt_def index_def
        defaultSystemMessage_def split: list.splits option.splits any.splits)

lemma processSystem_idem: "processSystem (processSystem sys) = processSystem sys"
  by (cases sys rule: processSystem.cases)
     (auto simp: firstIsNotPrompt_def claudeCodeSystemPrompt_def index_def Let_def
        split: list.splits option.splits)

text \<open>
  Claim C3. Whatever the shape of the \<^verbatim>\<open>system\<close> field, after the injector has run the text
  of its first element is the mandated preamble, and running the injector a second time
  changes nothing.
\<close>

theorem injector_first_text_and_idempotent:
  "systemFirstText (cr_System (processClaudeCodeSystemPrompt request)) = Some defaultSystemMessage
   \<and> processClaudeCodeSystemPrompt (processClaudeCodeSystemPrompt request)
       = processClaudeCodeSystemPrompt request"
  by (simp add: processClaudeCodeSystemPrompt_def processSystem_first processSystem_idem)

lemma convertedSlice_maps: "convertedSlice (map AMap ms) = ms"
  by (induction ms) auto

lemma convertedSlice_filter: "convertedSlice xs = List.map_filter asMap xs"
  by (induction xs) (auto simp: List.map_filter_simps split: option.splits)

lemma mediaItem_fields:
  "index (mediaItem m) ''type'' = AStr (mm_Type m)
   \<and> asString (index (mediaItem m) ''text'') = mm_Text m
   \<and> (mm_CacheControl m \<noteq> RawEmpty \<longrightarrow>
        index (mediaItem m) ''cache_control'' = UnmarshalAny (mm_CacheControl m))"
  by (auto simp: mediaItem_def index_def split: option.splits)

text \<open>
  Claim C2, as stated, fails: a \<^verbatim>\<open>system\<close> string other than the preamble is replaced by
  the preamble element alone, and an element of an untyped list that is not a mapping is
  left out.
\<close>

theorem injector_discards_counterexample:
  "processSystem terseSystem = SystemMaps [claudeCodeSystemPrompt]
   \<and> processSystem mixedSystem = SystemMaps [claudeCodeSystemPrompt, textMap ''A'']"
  by (simp add: terseSystem_def mixedSystem_def textMap_def defaultSystemMessage_def
      firstIsNotPrompt_def index_def)

text \<open>
  Claim C2, amended. For a non-empty list whose first element's text is not the preamble
  the injector puts the preamble element in front and keeps the supplied elements in their
  order: a slice of mappings is kept as it is; of an untyped list whose first element is a
  mapping exactly the elements that are mappings are kept (all of them when all are
  mappings); every element of a slice of content blocks is kept as a mapping with the
  block's type, its text and its decoded cache-control marker.
\<close>

theorem injector_prepends_and_keeps_lists:
  "(firstIsNotPrompt firstMap \<longrightarrow>
      processSystem (SystemMaps (firstMap # rest))
        = SystemMaps (claudeCodeSystemPrompt # firstMap # rest))
   \<and> (firstIsNotPrompt firstMap \<longrightarrow>
      processSystem (SystemAny (ASlice (AMap firstMap # items)))
        = SystemMaps (claudeCodeSystemPrompt # firstMap # List.map_filter asMap items))
   \<and> (firstIsNotPrompt firstMap \<longrightarrow>
      processSystem (SystemAny (ASlice (map AMap (firstMap # rest))))
        = SystemMaps (claudeCodeSystemPrompt # firstMap # rest))
   \<and> (mm_Text first \<noteq> Some defaultSystemMessage \<longrightarrow>
      processSystem (SystemMedia (first # media))
        = SystemMaps (claudeCodeSystemPrompt # map mediaItem (first # media)))
   \<and> (\<forall>m \<in> set (first # media).
         index (mediaItem m) ''type'' = AStr (mm_Type m)
         \<and> asString (index (mediaItem m) ''text'') = mm_Text m
         \<and> (mm_CacheControl m \<noteq> RawEmpty \<longrightarrow>
              index (mediaItem m) ''cache_control'' = UnmarshalAny (mm_CacheControl m)))"
proof (intro conjI impI)
  assume "firstIsNotPrompt firstMap"
  then show "processSystem (SystemMaps (firstMap # rest))
      = SystemMaps (claudeCodeSystemPrompt # firstMap # rest)"
    by simp
next
  assume "firstIsNotPrompt firstMap"
  then show "processSystem (SystemAny (ASlice (AMap firstMap # items)))
      = SystemMaps (claudeCodeSystemPrompt # firstMap # List.map_filter asMap items)"
    by (simp add: convertedSlice_filter)
next
  assume "firstIsNotPrompt firstMap"
  then show "processSystem (SystemAny (ASlice (map AMap (firstMap # rest))))
      = SystemMaps (claudeCodeSystemPrompt # firstMap # rest)"
    by (simp add: convertedSlice_maps)
next
  assume "mm_Text first \<noteq> Some defaultSystemMessage"
  then show "processSystem (SystemMedia (first # media))
      = SystemMaps (claudeCodeSystemPrompt # map mediaItem (first # media))"
    by (cases "mm_Text first") (simp_all add: defaultSystemMessage_def)
next
  show "\<forall>m \<in> set (first # media).
         index (mediaItem m) ''type'' = AStr (mm_Type m)
         \<and> asString (index (mediaItem m) ''text'') = mm_Text m
         \<and> (mm_CacheControl m \<noteq> RawEmpty \<longrightarrow>
              index (mediaItem m) ''cache_control'' = UnmarshalAny (mm_CacheControl m))"
    using mediaItem_fields by blast
qed

theorem injector_prepends_and_keeps_lists_witness:
  "processSystem (SystemMaps [textMap ''A'', textMap ''B''])
     = SystemMaps [claudeCodeSystemPrompt, textMap ''A'', textMap ''B'']
   \<and> processSystem (SystemAny (ASlice [AMap (textMap ''A''), AStr ''x'', AMap (textMap ''B'')]))
     = SystemMaps [claudeCodeSystemPrompt, textMap ''A'', textMap ''B'']
   \<and> processSystem (SystemAny (ASlice [AMap (textMap ''A''), AMap (textMap ''B'')]))
     = SystemMaps [claudeCodeSystemPrompt, textMap ''A'', textMap ''B'']
   \<and> processSystem (SystemMedia [textBlock ''A'', textBlock ''B''])
     = SystemMaps [claudeCodeSystemPrompt, textMap ''A'', textMap ''B'']
   \<and> index (mediaItem (textBlock ''A'')) ''type'' = AStr ''text''"
proof -
  have h: "firstIsNotPrompt (textMap ''A'')"
    by (simp add: firstIsNotPrompt_def textMap_def index_def defaultSystemMessage_def)
  have t: "mm_Text (textBlock ''A'') \<noteq> Some defaultSystemMessage"
    by (simp add: textBlock_def defaultSystemMessage_def)
  have m: "map mediaItem [textBlock ''A'', textBlock ''B''] = [textMap ''A'', textMap ''B'']"
    by (simp add: mediaItem_def textBlock_def textMap_def emptyMedia_def)
  have ty: "mm_Type (textBlock ''A'') = ''text''"
    by (simp add: textBlock_def)
  show ?thesis
    using h t m ty
      injector_prepends_and_keeps_lists
        [of "textMap ''A''" "[textMap ''B'']" "[AStr ''x'', AMap (textMap ''B'')]"
            "textBlock ''A''" "[textBlock ''B'']"]
    by (simp add: List.map_filter_simps)
qed

section \<open>Cache-control fixer: properties\<close>

lemma UnmarshalMap_RawEmpty [simp]: "UnmarshalMap RawEmpty = None"
  by simp

lemma fixMedia_cases:
  "fixMedia b = (if markerNeedsFix (mm_CacheControl b) then b\<lparr>mm_CacheControl := cacheControlData\<rparr> else b)"
  by (cases "mm_CacheControl b") (auto simp: fixMedia_def markerNeedsFix_def split: option.splits)

lemma cacheControlData_fixed [simp]: "\<not> markerNeedsFix cacheControlData"
  by (simp add: markerNeedsFix_def cacheControlData_def needsFix_def index_def)

lemma cacheControlData_nonempty [simp]: "cacheControlData \<noteq> RawEmpty"
  by (simp add: cacheControlData_def)

lemma markerNeedsFix_nonempty: "markerNeedsFix c \<Longrightarrow> c \<noteq> RawEmpty"
  by (auto simp: markerNeedsFix_def)

lemma fixMedia_idem: "fixMedia (fixMedia b) = fixMedia b"
  by (simp add: fixMedia_cases)

lemma index_assign: "index (assign m k v) k = v"
  by (induction m) (auto simp: index_def)

lemma exists_assign: "exists (assign m k v) k"
  by (induction m) (auto simp: exists_def)

lemma fixMap_cases:
  "fixMap m = (if mapNeedsFix m then assign m ''cache_control'' fixedCacheControl else m)"
  by (auto simp: fixMap_def mapNeedsFix_def split: option.splits)

lemma fixed_map_ok [simp]: "\<not> mapNeedsFix (assign m ''cache_control'' fixedCacheControl)"
  by (simp add: mapNeedsFix_def index_assign fixedCacheControl_def)

lemma fixMap_idem: "fixMap (fixMap m) = fixMap m"
  by (simp add: fixMap_cases)

lemma fixItem_idem: "fixItem (fixItem x) = fixItem x"
  by (cases x) (auto simp: fixItem_def fixMap_idem)

lemma fix_idem: "fixCacheControlFormat (fixCacheControlFormat m) = fixCacheControlFormat m"
  by (auto simp: fixCacheControlFormat_def fixMedia_idem fixItem_idem split: content.splits any.splits)

lemma fix_role [simp]: "msg_Role (fixCacheControlFormat m) = msg_Role m"
  by (auto simp: fixCacheControlFormat_def split: content.splits any.splits)

lemma add_role [simp]: "msg_Role (addCacheControlToMessage m) = msg_Role m"
  by (auto simp: addCacheControlToMessage_def Let_def split: content.splits any.splits option.splits)

lemma map_fix_update:
  "i < length xs \<Longrightarrow> map f xs = xs \<Longrightarrow> f y = y \<Longrightarrow> map f (xs[i := y]) = xs[i := y]"
  by (simp add: map_update)

lemma fixItem_assigned [simp]:
  "fixItem (AMap (assign m ''cache_control'' fixedCacheControl)) = AMap (assign m ''cache_control'' fixedCacheControl)"
  by (simp add: fixItem_def fixMap_cases)

lemma fixMedia_marked [simp]:
  "fixMedia (b\<lparr>mm_CacheControl := cacheControlData\<rparr>) = b\<lparr>mm_CacheControl := cacheControlData\<rparr>"
  by (simp add: fixMedia_cases)

lemma fix_after_add:
  assumes "fixCacheControlFormat m = m"
  shows "fixCacheControlFormat (addCacheControlToMessage m) = addCacheControlToMessage m"
proof (cases "msg_Content m")
  case (ContentMedia bs)
  with assms have fx: "map fixMedia bs = bs"
    by (auto simp: fixCacheControlFormat_def dest: arg_cong [where f = msg_Content])
  show ?thesis
    using ContentMedia fx
    by (auto simp: addCacheControlToMessage_def fixCacheControlFormat_def Let_def map_update)
next
  case (ContentAny a)
  show ?thesis
  proof (cases a)
    case (ASlice xs)
    with assms ContentAny have fx: "map fixItem xs = xs"
      by (auto simp: fixCacheControlFormat_def dest: arg_cong [where f = msg_Content])
    show ?thesis
      using ContentAny ASlice fx
      by (auto simp: addCacheControlToMessage_def fixCacheControlFormat_def Let_def map_update
          split: option.splits)
  next
    case (AStr s)
    then show ?thesis
      using ContentAny
      by (simp add: addCacheControlToMessage_def fixCacheControlFormat_def)
  qed (use ContentAny in \<open>simp_all add: addCacheControlToMessage_def fixCacheControlFormat_def\<close>)
qed

lemma add_idem: "addCacheControlToMessage (addCacheControlToMessage m) = addCacheControlToMessage m"
proof (cases "msg_Content m")
  case (ContentMedia bs)
  then show ?thesis
    by (auto simp: addCacheControlToMessage_def Let_def)
next
  case (ContentAny a)
  then show ?thesis
    by (cases a)
       (auto simp: addCacheControlToMessage_def Let_def exists_assign split: option.splits)
qed

lemma lastUserLoop_length [simp]: "length (lastUserLoop n xs) = length xs"
  by (induction n) auto

lemma lastUserLoop_above: "n \<le> j \<Longrightarrow> lastUserLoop n xs ! j = xs ! j"
  by (induction n) auto

lemma lastUserLoop_nth:
  "n \<le> length xs \<Longrightarrow> i < length xs \<Longrightarrow>
   lastUserLoop n xs ! i = xs ! i \<or> lastUserLoop n xs ! i = addCacheControlToMessage (xs ! i)"
  by (induction n) (auto simp: nth_list_update)

lemma lastUserLoop_idem:
  "n \<le> length xs \<Longrightarrow> lastUserLoop n (lastUserLoop n xs) = lastUserLoop n xs"
proof (induction n)
  case 0
  then show ?case by simp
next
  case (Suc i)
  show ?case
  proof (cases "msg_Role (xs ! i) = ''user''")
    case True
    with Suc.prems show ?thesis by (simp add: add_idem)
  next
    case False
    have "lastUserLoop i xs ! i = xs ! i"
      by (rule lastUserLoop_above) simp
    with False Suc show ?thesis by simp
  qed
qed

lemma map_fix_lastUserLoop:
  assumes "map fixCacheControlFormat xs = xs"
  shows "map fixCacheControlFormat (lastUserLoop n xs) = lastUserLoop n xs"
proof (induction n)
  case 0
  with assms show ?case by simp
next
  case (Suc i)
  show ?case
  proof (cases "i < length xs")
    case True
    from assms True have "fixCacheControlFormat (xs ! i) = xs ! i"
      by (metis nth_map)
    then have "fixCacheControlFormat (addCacheControlToMessage (xs ! i)) = addCacheControlToMessage (xs ! i)"
      by (rule fix_after_add)
    with assms Suc show ?thesis by (simp add: map_update)
  next
    case False
    with assms Suc show ?thesis by (simp add: list_update_beyond)
  qed
qed

lemma addCacheControl_idem: "addCacheControl (addCacheControl ms) = addCacheControl ms"
proof (cases "ms = []")
  case True
  then show ?thesis by (simp add: addCacheControl_def)
next
  case False
  let ?F = "map fixCacheControlFormat ms"
  let ?A = "lastUserLoop (length ?F) ?F"
  have A: "addCacheControl ms = ?A" using False by (simp add: addCacheControl_def Let_def)
  have ne: "?A \<noteq> []" using False by (metis lastUserLoop_length length_0_conv length_map)
  have "map fixCacheControlFormat ?F = ?F" by (simp add: fix_idem)
  then have fx: "map fixCacheControlFormat ?A = ?A" by (rule map_fix_lastUserLoop)
  have "addCacheControl ?A = lastUserLoop (length ?A) ?A"
    using ne fx by (simp add: addCacheControl_def Let_def)
  also have "\<dots> = ?A" using lastUserLoop_idem [of "length ?F" ?F] by simp
  finally show ?thesis using A by simp
qed

lemma add_media:
  assumes "msg_Content m = ContentMedia bs"
  shows "\<exists>bs'. msg_Content (addCacheControlToMessage m) = ContentMedia bs'
           \<and> length bs' = length bs
           \<and> (\<forall>j < length bs. mm_CacheControl (bs ! j) \<noteq> RawEmpty \<longrightarrow> bs' ! j = bs ! j)"
  using assms by (auto simp: addCacheControlToMessage_def Let_def nth_list_update)

lemma add_slice:
  assumes "msg_Content m = ContentAny (ASlice xs)"
  shows "\<exists>xs'. msg_Content (addCacheControlToMessage m) = ContentAny (ASlice xs')
           \<and> length xs' = length xs
           \<and> (\<forall>j < length xs. \<forall>cm. xs ! j = AMap cm \<and> exists cm ''cache_control'' \<longrightarrow> xs' ! j = xs ! j)"
  using assms
  by (auto simp: addCacheControlToMessage_def Let_def nth_list_update split: option.splits)

lemma addCacheControl_nth:
  assumes "i < length ms"
  shows "addCacheControl ms ! i = fixCacheControlFormat (ms ! i)
         \<or> addCacheControl ms ! i = addCacheControlToMessage (fixCacheControlFormat (ms ! i))"
proof -
  from assms have "ms \<noteq> []" by auto
  then have "addCacheControl ms = lastUserLoop (length (map fixCacheControlFormat ms)) (map fixCacheControlFormat ms)"
    by (simp add: addCacheControl_def Let_def)
  with lastUserLoop_nth [of "length (map fixCacheControlFormat ms)" "map fixCacheControlFormat ms" i] assms
  show ?thesis by simp
qed

lemma addCacheControl_media:
  assumes i: "i < length ms" and c: "msg_Content (ms ! i) = ContentMedia bs"
  shows "\<exists>bs'. msg_Content (addCacheControl ms ! i) = ContentMedia bs'
           \<and> length bs' = length bs
           \<and> (\<forall>j < length bs.
                 (markerNeedsFix (mm_CacheControl (bs ! j))
                    \<longrightarrow> mm_CacheControl (bs' ! j) = cacheControlData)
                 \<and> (mm_CacheControl (bs ! j) \<noteq> RawEmpty \<and> \<not> markerNeedsFix (mm_CacheControl (bs ! j))
                    \<longrightarrow> bs' ! j = bs ! j))"
proof -
  let ?f = "fixCacheControlFormat (ms ! i)"
  have f: "msg_Content ?f = ContentMedia (map fixMedia bs)"
    using c by (simp add: fixCacheControlFormat_def)
  have step: "\<forall>j < length bs.
      (markerNeedsFix (mm_CacheControl (bs ! j))
          \<longrightarrow> mm_CacheControl (map fixMedia bs ! j) = cacheControlData)
      \<and> (\<not> markerNeedsFix (mm_CacheControl (bs ! j)) \<longrightarrow> map fixMedia bs ! j = bs ! j)"
    by (simp add: fixMedia_cases)
  from addCacheControl_nth [OF i] show ?thesis
  proof
    assume "addCacheControl ms ! i = ?f"
    with f step show ?thesis by auto
  next
    assume a: "addCacheControl ms ! i = addCacheControlToMessage ?f"
    from add_media [OF f] obtain bs' where
      b: "msg_Content (addCacheControlToMessage ?f) = ContentMedia bs'"
         "length bs' = length bs"
         "\<forall>j < length bs. mm_CacheControl (map fixMedia bs ! j) \<noteq> RawEmpty \<longrightarrow> bs' ! j = map fixMedia bs ! j"
      by auto
    have "\<forall>j < length bs.
        (markerNeedsFix (mm_CacheControl (bs ! j)) \<longrightarrow> mm_CacheControl (bs' ! j) = cacheControlData)
        \<and> (mm_CacheControl (bs ! j) \<noteq> RawEmpty \<and> \<not> markerNeedsFix (mm_CacheControl (bs ! j))
              \<longrightarrow> bs' ! j = bs ! j)"
    proof (intro allI impI conjI)
      fix j assume j: "j < length bs" and n: "markerNeedsFix (mm_CacheControl (bs ! j))"
      then have "mm_CacheControl (map fixMedia bs ! j) = cacheControlData"
        by (simp add: fixMedia_cases)
      with b(3) j show "mm_CacheControl (bs' ! j) = cacheControlData" by simp
    next
      fix j assume j: "j < length bs"
        and n: "mm_CacheControl (bs ! j) \<noteq> RawEmpty \<and> \<not> markerNeedsFix (mm_CacheControl (bs ! j))"
      then have "map fixMedia bs ! j = bs ! j" by (simp add: fixMedia_cases)
      with b(3) j n show "bs' ! j = bs ! j" by simp
    qed
    with a b show ?thesis by auto
  qed
qed

lemma fixItem_AMap [simp]: "fixItem (AMap cm) = AMap (fixMap cm)"
  by (simp add: fixItem_def)

lemma exists_fixMap [simp]: "exists (fixMap cm) ''cache_control'' = exists cm ''cache_control''"
  by (auto simp: fixMap_cases exists_assign mapNeedsFix_def split: option.splits)

lemma addCacheControl_slice:
  assumes i: "i < length ms" and c: "msg_Content (ms ! i) = ContentAny (ASlice xs)"
  shows "\<exists>xs'. msg_Content (addCacheControl ms ! i) = ContentAny (ASlice xs')
           \<and> length xs' = length xs
           \<and> (\<forall>j < length xs. \<forall>cm. xs ! j = AMap cm \<longrightarrow>
                 (mapNeedsFix cm
                    \<longrightarrow> (\<exists>cm'. xs' ! j = AMap cm' \<and> index cm' ''cache_control'' = fixedCacheControl))
                 \<and> (exists cm ''cache_control'' \<and> \<not> mapNeedsFix cm \<longrightarrow> xs' ! j = xs ! j))"
proof -
  let ?f = "fixCacheControlFormat (ms ! i)"
  have f: "msg_Content ?f = ContentAny (ASlice (map fixItem xs))"
    using c by (simp add: fixCacheControlFormat_def)
  from addCacheControl_nth [OF i] show ?thesis
  proof
    assume "addCacheControl ms ! i = ?f"
    with f show ?thesis by (auto simp: fixMap_cases index_assign)
  next
    assume a: "addCacheControl ms ! i = addCacheControlToMessage ?f"
    from add_slice [OF f] obtain xs' where
      b: "msg_Content (addCacheControlToMessage ?f) = ContentAny (ASlice xs')"
         "length xs' = length xs"
         "\<forall>j < length xs. \<forall>cm. map fixItem xs ! j = AMap cm \<and> exists cm ''cache_control''
             \<longrightarrow> xs' ! j = map fixItem xs ! j"
      by auto
    have "\<forall>j < length xs. \<forall>cm. xs ! j = AMap cm \<longrightarrow>
        (mapNeedsFix cm
            \<longrightarrow> (\<exists>cm'. xs' ! j = AMap cm' \<and> index cm' ''cache_control'' = fixedCacheControl))
        \<and> (exists cm ''cache_control'' \<and> \<not> mapNeedsFix cm \<longrightarrow> xs' ! j = xs ! j)"
    proof (intro allI impI conjI)
      fix j cm assume j: "j < length xs" and x: "xs ! j = AMap cm" and n: "mapNeedsFix cm"
      then have e: "exists cm ''cache_control''" by (auto simp: mapNeedsFix_def split: option.splits)
      from j x have "map fixItem xs ! j = AMap (fixMap cm)" by simp
      with b(3) j e have "xs' ! j = AMap (fixMap cm)" by simp
      with n show "\<exists>cm'. xs' ! j = AMap cm' \<and> index cm' ''cache_control'' = fixedCacheControl"
        by (simp add: fixMap_cases index_assign)
    next
      fix j cm assume j: "j < length xs" and x: "xs ! j = AMap cm"
        and n: "exists cm ''cache_control'' \<and> \<not> mapNeedsFix cm"
      from j x n have "map fixItem xs ! j = AMap cm" by (simp add: fixMap_cases)
      with b(3) j n x show "xs' ! j = xs ! j" by simp
    qed
    with a b show ?thesis by auto
  qed
qed

text \<open>
  Claim C6. After the pass over the messages, every content block whose marker decoded to
  an ephemeral marker without ttl carries the canonical marker, in a slice of content blocks
  and in a decoded content list alike; a block that carried any other marker is returned
  unchanged, so the pass never removes a ttl and never overwrites a marker when it attaches
  the prompt-cache marker to the last user message; and running the pass a second time
  changes nothing.
\<close>

theorem cache_control_fixer:
  "(i < length ms \<and> msg_Content (ms ! i) = ContentMedia bs \<longrightarrow>
      (\<exists>bs'. msg_Content (addCacheControl ms ! i) = ContentMedia bs'
         \<and> length bs' = length bs
         \<and> (\<forall>j < length bs.
               (markerNeedsFix (mm_CacheControl (bs ! j))
                  \<longrightarrow> mm_CacheControl (bs' ! j) = cacheControlData)
               \<and> (mm_CacheControl (bs ! j) \<noteq> RawEmpty \<and> \<not> markerNeedsFix (mm_CacheControl (bs ! j))
                  \<longrightarrow> bs' ! j = bs ! j))))
   \<and> (i < length ms \<and> msg_Content (ms ! i) = ContentAny (ASlice xs) \<longrightarrow>
      (\<exists>xs'. msg_Content (addCacheControl ms ! i) = ContentAny (ASlice xs')
         \<and> length xs' = length xs
         \<and> (\<forall>j < length xs. \<forall>cm. xs ! j = AMap cm \<longrightarrow>
               (mapNeedsFix cm
                  \<longrightarrow> (\<exists>cm'. xs' ! j = AMap cm' \<and> index cm' ''cache_control'' = fixedCacheControl))
               \<and> (exists cm ''cache_control'' \<and> \<not> mapNeedsFix cm \<longrightarrow> xs' ! j = xs ! j))))
   \<and> addCacheControl (addCacheControl ms) = addCacheControl ms"
  using addCacheControl_media [of i ms bs] addCacheControl_slice [of i ms xs]
    addCacheControl_idem [of ms]
  by blast

theorem cache_control_fixer_witness:
  "(\<exists>bs'. msg_Content (addCacheControl cachedTurns ! 0) = ContentMedia bs'
       \<and> mm_CacheControl (bs' ! 0) = cacheControlData
       \<and> bs' ! 1 = (textBlock ''b'')\<lparr>mm_CacheControl := RawJson shortMarker\<rparr>)
   \<and> (\<exists>xs'. msg_Content (addCacheControl cachedTurns ! 2) = ContentAny (ASlice xs')
       \<and> (\<exists>cm'. xs' ! 0 = AMap cm' \<and> index cm' ''cache_control'' = fixedCacheControl)
       \<and> xs' ! 1 = AMap (textMap ''d'' @ [(''cache_control'', shortMarker)]))
   \<and> addCacheControl (addCacheControl cachedTurns) = addCacheControl cachedTurns"
proof -
  let ?bs = "[(textBlock ''a'')\<lparr>mm_CacheControl := RawJson bareMarker\<rparr>,
              (textBlock ''b'')\<lparr>mm_CacheControl := RawJson shortMarker\<rparr>]"
  let ?xs = "[AMap (textMap ''c'' @ [(''cache_control'', bareMarker)]),
              AMap (textMap ''d'' @ [(''cache_control'', shortMarker)])]"
  have m0: "0 < length cachedTurns \<and> msg_Content (cachedTurns ! 0) = ContentMedia ?bs"
    by (simp add: cachedTurns_def)
  have m2: "2 < length cachedTurns \<and> msg_Content (cachedTurns ! 2) = ContentAny (ASlice ?xs)"
    by (simp add: cachedTurns_def)
  have n0: "markerNeedsFix (mm_CacheControl (?bs ! 0))"
    by (simp add: markerNeedsFix_def bareMarker_def needsFix_def index_def)
  have n1: "mm_CacheControl (?bs ! 1) \<noteq> RawEmpty \<and> \<not> markerNeedsFix (mm_CacheControl (?bs ! 1))"
    by (simp add: markerNeedsFix_def shortMarker_def needsFix_def index_def)
  have x0: "mapNeedsFix (textMap ''c'' @ [(''cache_control'', bareMarker)])"
    by (simp add: mapNeedsFix_def textMap_def bareMarker_def needsFix_def index_def exists_def)
  have x1: "exists (textMap ''d'' @ [(''cache_control'', shortMarker)]) ''cache_control''
      \<and> \<not> mapNeedsFix (textMap ''d'' @ [(''cache_control'', shortMarker)])"
    by (simp add: mapNeedsFix_def textMap_def shortMarker_def needsFix_def index_def exists_def)
  from cache_control_fixer [of 0 cachedTurns ?bs] m0 obtain bs' where
    b: "msg_Content (addCacheControl cachedTurns ! 0) = ContentMedia bs'"
       "\<forall>j < length ?bs.
          (markerNeedsFix (mm_CacheControl (?bs ! j)) \<longrightarrow> mm_CacheControl (bs' ! j) = cacheControlData)
          \<and> (mm_CacheControl (?bs ! j) \<noteq> RawEmpty \<and> \<not> markerNeedsFix (mm_CacheControl (?bs ! j))
               \<longrightarrow> bs' ! j = ?bs ! j)"
    by blast
  from b(2) n0 have b0: "mm_CacheControl (bs' ! 0) = cacheControlData" by simp
  from b(2) n1 have b1: "bs' ! 1 = ?bs ! 1" by simp
  from cache_control_fixer [of 2 cachedTurns _ ?xs] m2 obtain xs' where
    x: "msg_Content (addCacheControl cachedTurns ! 2) = ContentAny (ASlice xs')"
       "\<forall>j < length ?xs. \<forall>cm. ?xs ! j = AMap cm \<longrightarrow>
          (mapNeedsFix cm
             \<longrightarrow> (\<exists>cm'. xs' ! j = AMap cm' \<and> index cm' ''cache_control'' = fixedCacheControl))
          \<and> (exists cm ''cache_control'' \<and> \<not> mapNeedsFix cm \<longrightarrow> xs' ! j = ?xs ! j)"
    by blast
  from x(2) x0 have y0: "\<exists>cm'. xs' ! 0 = AMap cm' \<and> index cm' ''cache_control'' = fixedCacheControl"
    by simp
  from x(2) x1 have y1: "xs' ! 1 = ?xs ! 1" by simp
  from cache_control_fixer [of 0 cachedTurns]
  have "addCacheControl (addCacheControl cachedTurns) = addCacheControl cachedTurns" by blast
  with b(1) b0 b1 x(1) y0 y1 show ?thesis by auto
qed

section \<open>Request conversion: properties\<close>

lemma filter_fields [simp]:
  "cr_TopK (filterRequestFields r) = 0"
  "cr_TopP (filterRequestFields r) = 0"
  "cr_Temperature (filterRequestFields r) = None"
  "cr_MaxTokens (filterRequestFields r) = cr_MaxTokens r"
  "cr_Thinking (filterRequestFields r) = cr_Thinking r"
  "cr_StopSequences (filterRequestFields r) = cr_StopSequences r"
  by (simp_all add: filterRequestFields_def)

lemma prompt_fields [simp]:
  "cr_MaxTokens (processClaudeCodeSystemPrompt r) = cr_MaxTokens r"
  "cr_Thinking (processClaudeCodeSystemPrompt r) = cr_Thinking r"
  "cr_StopSequences (processClaudeCodeSystemPrompt r) = cr_StopSequences r"
  by (simp_all add: processClaudeCodeSystemPrompt_def)

lemma withStop_fields:
  "withStop t c = Inr c' \<Longrightarrow> cr_MaxTokens c' = cr_MaxTokens c \<and> cr_Thinking c' = cr_Thinking c"
  by (auto simp: withStop_def split: any.splits sum.splits)

lemma withReasoning_MaxTokens:
  "withReasoning e t c = Inr c' \<Longrightarrow> cr_MaxTokens c' = cr_MaxTokens c"
  by (auto simp: withReasoning_def split: if_splits sum.splits)

lemma withReasoning_absent:
  "or_Reasoning t = RawEmpty \<Longrightarrow> withReasoning e t c = Inr c"
  by (simp add: withReasoning_def)

lemma withReasoningEffort_MaxTokens [simp]:
  "cr_MaxTokens (withReasoningEffort t c) = cr_MaxTokens c"
  by (simp add: withReasoningEffort_def)

lemma withReasoningEffort_other:
  "or_ReasoningEffort t \<noteq> ''low'' \<Longrightarrow> or_ReasoningEffort t \<noteq> ''medium'' \<Longrightarrow>
   or_ReasoningEffort t \<noteq> ''high'' \<Longrightarrow> withReasoningEffort t c = c"
  by (simp add: withReasoningEffort_def)

lemma withToolChoice_MaxTokens [simp]:
  "cr_MaxTokens (withToolChoice t c) = cr_MaxTokens c"
  by (simp add: withToolChoice_def split: option.splits)

lemma bindE:
  assumes "(case x of Inl f \<Rightarrow> Inl f | Inr y \<Rightarrow> g y) = Inr r"
  obtains y where "x = Inr y" and "g y = Inr r"
  using assms by (cases x) auto

lemma message_mode_result:
  assumes "RequestOpenAI2ClaudeMessage e t = Inr r"
  shows "\<exists>tools c1 c2 cm sm.
     withReasoning e t
       (withReasoningEffort t (withThinkingAdapter e t (withMaxTokens e t (withToolChoice t
          (emptyClaudeRequest\<lparr>
             cr_Model := or_Model t,
             cr_MaxTokens := or_GetMaxTokens t,
             cr_StopSequences := None,
             cr_Temperature := or_Temperature t,
             cr_TopP := or_TopP t,
             cr_TopK := or_TopK t,
             cr_Stream := or_Stream t,
             cr_Tools := ToolsSlice tools\<rparr>))))) = Inr c1
     \<and> withStop t c1 = Inr c2
     \<and> r = filterRequestFields
           ((processClaudeCodeSystemPrompt
               ((if sm \<noteq> [] then c2\<lparr>cr_System := SystemMaps sm\<rparr> else c2)\<lparr>cr_Prompt := []\<rparr>))
              \<lparr>cr_Messages := addCacheControl cm\<rparr>)"
  using assms
  unfolding RequestOpenAI2ClaudeMessage_def Let_def
  apply (elim bindE)
  apply (clarsimp split: prod.splits split del: if_split)
  apply (intro exI conjI)
    apply assumption
   apply assumption
  apply (rule refl)
  done


lemma message_mode_cleared:
  assumes "RequestOpenAI2ClaudeMessage e t = Inr r"
  shows "cr_TopK r = 0 \<and> cr_TopP r = 0 \<and> cr_Temperature r = None"
  using message_mode_result [OF assms] by auto

lemma withMaxTokens_value:
  "cr_MaxTokens (withMaxTokens e t c) =
     (let resolved = (if cr_MaxTokens c = 0 then uint (GetDefaultMaxTokens e (or_Model t))
                      else cr_MaxTokens c)
      in if resolved = 4096 then 16384 else resolved)"
  by (simp add: withMaxTokens_def Let_def)

lemma withThinkingAdapter_MaxTokens:
  "cr_MaxTokens (withThinkingAdapter e t c) =
     (if ThinkingAdapterEnabled e \<and> HasSuffix (or_Model t) ''-thinking'' \<and> cr_MaxTokens c < 1280
      then 1280 else cr_MaxTokens c)"
  by (simp add: withThinkingAdapter_def Let_def)

lemma withThinkingAdapter_Thinking:
  "ThinkingAdapterEnabled e \<Longrightarrow> HasSuffix (or_Model t) ''-thinking'' \<Longrightarrow>
   cr_Thinking (withThinkingAdapter e t c) =
     Some (enabledThinking (budgetTokens (if cr_MaxTokens c < 1280 then 1280 else cr_MaxTokens c)
       (ThinkingAdapterBudgetTokensPercentage e)))"
  by (simp add: withThinkingAdapter_def Let_def)

lemma message_mode_MaxTokens:
  assumes "RequestOpenAI2ClaudeMessage e t = Inr r"
  shows "cr_MaxTokens r =
     (let resolved = (if or_GetMaxTokens t = 0 then uint (GetDefaultMaxTokens e (or_Model t))
                      else or_GetMaxTokens t);
          bumped = (if resolved = 4096 then 16384 else resolved)
      in if ThinkingAdapterEnabled e \<and> HasSuffix (or_Model t) ''-thinking'' \<and> bumped < 1280
         then 1280 else bumped)"
proof -
  from message_mode_result [OF assms] obtain tools c1 c2 cm sm where
    c1: "withReasoning e t
       (withReasoningEffort t (withThinkingAdapter e t (withMaxTokens e t (withToolChoice t
          (emptyClaudeRequest\<lparr>
             cr_Model := or_Model t,
             cr_MaxTokens := or_GetMaxTokens t,
             cr_StopSequences := None,
             cr_Temperature := or_Temperature t,
             cr_TopP := or_TopP t,
             cr_TopK := or_TopK t,
             cr_Stream := or_Stream t,
             cr_Tools := ToolsSlice tools\<rparr>))))) = Inr c1"
    and c2: "withStop t c1 = Inr c2"
    and r: "r = filterRequestFields
           ((processClaudeCodeSystemPrompt
               ((if sm \<noteq> [] then c2\<lparr>cr_System := SystemMaps sm\<rparr> else c2)\<lparr>cr_Prompt := []\<rparr>))
              \<lparr>cr_Messages := addCacheControl cm\<rparr>)"
    by blast
  from r have "cr_MaxTokens r = cr_MaxTokens c2" by simp
  also have "\<dots> = cr_MaxTokens c1" using withStop_fields [OF c2] by simp
  finally show ?thesis
    using withReasoning_MaxTokens [OF c1]
    by (simp add: withThinkingAdapter_MaxTokens withMaxTokens_value Let_def)
qed

lemma message_mode_Thinking:
  assumes "RequestOpenAI2ClaudeMessage e t = Inr r"
    and "ThinkingAdapterEnabled e" and "HasSuffix (or_Model t) ''-thinking''"
    and "or_ReasoningEffort t \<noteq> ''low''" and "or_ReasoningEffort t \<noteq> ''medium''"
    and "or_ReasoningEffort t \<noteq> ''high''" and "or_Reasoning t = RawEmpty"
  shows "cr_Thinking r = Some (enabledThinking
           (budgetTokens (cr_MaxTokens r) (ThinkingAdapterBudgetTokensPercentage e)))"
proof -
  from message_mode_result [OF assms(1)] obtain tools c1 c2 cm sm where
    c1: "withReasoning e t
       (withReasoningEffort t (withThinkingAdapter e t (withMaxTokens e t (withToolChoice t
          (emptyClaudeRequest\<lparr>
             cr_Model := or_Model t,
             cr_MaxTokens := or_GetMaxTokens t,
             cr_StopSequences := None,
             cr_Temperature := or_Temperature t,
             cr_TopP := or_TopP t,
             cr_TopK := or_TopK t,
             cr_Stream := or_Stream t,
             cr_Tools := ToolsSlice tools\<rparr>))))) = Inr c1"
    and c2: "withStop t c1 = Inr c2"
    and r: "r = filterRequestFields
           ((processClaudeCodeSystemPrompt
               ((if sm \<noteq> [] then c2\<lparr>cr_System := SystemMaps sm\<rparr> else c2)\<lparr>cr_Prompt := []\<rparr>))
              \<lparr>cr_Messages := addCacheControl cm\<rparr>)"
    by blast
  from r have "cr_Thinking r = cr_Thinking c2 \<and> cr_MaxTokens r = cr_MaxTokens c2" by simp
  with withStop_fields [OF c2]
  have eq: "cr_Thinking r = cr_Thinking c1 \<and> cr_MaxTokens r = cr_MaxTokens c1" by simp
  from c1 assms(4-7) have "c1 = withThinkingAdapter e t (withMaxTokens e t (withToolChoice t
          (emptyClaudeRequest\<lparr>
             cr_Model := or_Model t,
             cr_MaxTokens := or_GetMaxTokens t,
             cr_StopSequences := None,
             cr_Temperature := or_Temperature t,
             cr_TopP := or_TopP t,
             cr_TopK := or_TopK t,
             cr_Stream := or_Stream t,
             cr_Tools := ToolsSlice tools\<rparr>)))"
    by (simp add: withReasoning_absent withReasoningEffort_other)
  with eq assms(2,3) show ?thesis
    by (simp add: withThinkingAdapter_Thinking withThinkingAdapter_MaxTokens)
qed

lemma thinkingRequest_converts:
  "\<exists>r. RequestOpenAI2ClaudeMessage exampleEnv thinkingRequest = Inr r"
  by (simp add: RequestOpenAI2ClaudeMessage_def thinkingRequest_def emptyOpenAIRequest_def exampleEnv_def
      userText_def withToolChoice_def withMaxTokens_def withThinkingAdapter_def withReasoningEffort_def
      withReasoning_def withStop_def messageStep_def SetStringContent_def HasSuffix_def Let_def)

lemma smallRequest_converts:
  "\<exists>r. RequestOpenAI2ClaudeMessage exampleEnv smallRequest = Inr r"
  by (simp add: RequestOpenAI2ClaudeMessage_def smallRequest_def emptyOpenAIRequest_def exampleEnv_def
      userText_def withToolChoice_def withMaxTokens_def withThinkingAdapter_def withReasoningEffort_def
      withReasoning_def withStop_def messageStep_def SetStringContent_def HasSuffix_def Let_def)

lemma plainRequest_converts:
  "\<exists>r. RequestOpenAI2ClaudeMessage exampleEnv plainRequest = Inr r"
  by (simp add: RequestOpenAI2ClaudeMessage_def plainRequest_def emptyOpenAIRequest_def exampleEnv_def
      userText_def withToolChoice_def withMaxTokens_def withThinkingAdapter_def withReasoningEffort_def
      withReasoning_def withStop_def messageStep_def SetStringContent_def HasSuffix_def Let_def)

lemma budget_1280: "budgetTokens 1280 (4 / 5) = 1024"
  by (simp add: budgetTokens_def Let_def)

lemma thinkingRequest_facts:
  "ThinkingAdapterEnabled exampleEnv" "HasSuffix (or_Model thinkingRequest) ''-thinking''"
  "or_GetMaxTokens thinkingRequest = 1000" "ThinkingAdapterBudgetTokensPercentage exampleEnv = 4 / 5"
  "or_ReasoningEffort thinkingRequest = []" "or_Reasoning thinkingRequest = RawEmpty"
  by (simp_all add: exampleEnv_def thinkingRequest_def emptyOpenAIRequest_def HasSuffix_def)

text \<open>
  Claim C1, as stated, fails on the temperature: for the model \<^verbatim>\<open>x-thinking\<close> with 1000
  tokens the converted request has 1280 tokens and a budget of 1024, but its temperature is
  cleared, not 1.0. The call of \<^verbatim>\<open>filterRequestFields\<close> at the end of the conversion
  clears the sampling fields whatever the thinking adaptor has set.
\<close>

theorem thinking_temperature_counterexample:
  "map_sum id (\<lambda>r. (cr_MaxTokens r, cr_Thinking r, cr_Temperature r, cr_TopP r))
     (RequestOpenAI2ClaudeMessage exampleEnv thinkingRequest)
   = Inr (1280, Some (enabledThinking 1024), None, 0)"
proof -
  from thinkingRequest_converts obtain r where
    r: "RequestOpenAI2ClaudeMessage exampleEnv thinkingRequest = Inr r" by blast
  have m: "cr_MaxTokens r = 1280"
    using message_mode_MaxTokens [OF r] by (simp add: thinkingRequest_facts Let_def)
  have "cr_Thinking r = Some (enabledThinking 1024)"
    using message_mode_Thinking [OF r] m by (simp add: thinkingRequest_facts budget_1280)
  with r m message_mode_cleared [OF r] show ?thesis by simp
qed

text \<open>
  Claim C1, amended. For a request in message mode whose model name ends in
  \<^verbatim>\<open>-thinking\<close>, with the thinking adaptor enabled at 80 percent, 1000 tokens asked for,
  and neither a reasoning effort of low, medium or high nor a reasoning object, a
  conversion that succeeds gives 1280 tokens, an enabled thinking directive with a budget
  of 1024, no temperature, and a top_p of zero.
\<close>

theorem thinking_request_fields:
  assumes "ThinkingAdapterEnabled e"
    and "HasSuffix (or_Model t) ''-thinking''"
    and "or_GetMaxTokens t = 1000"
    and "ThinkingAdapterBudgetTokensPercentage e = 4 / 5"
    and "or_ReasoningEffort t \<notin> {''low'', ''medium'', ''high''}"
    and "or_Reasoning t = RawEmpty"
    and "RequestOpenAI2ClaudeMessage e t = Inr r"
  shows "cr_MaxTokens r = 1280
    \<and> cr_Thinking r = Some \<lparr>th_Type = ''enabled'', th_BudgetTokens = Some 1024\<rparr>
    \<and> cr_Temperature r = None \<and> cr_TopP r = 0"
proof -
  have m: "cr_MaxTokens r = 1280"
    using message_mode_MaxTokens [OF assms(7)] assms(1-3) by (simp add: Let_def)
  have "cr_Thinking r = Some (enabledThinking 1024)"
    using message_mode_Thinking [OF assms(7) assms(1,2)] assms(4-6) m by (simp add: budget_1280)
  with m message_mode_cleared [OF assms(7)] show ?thesis by (simp add: enabledThinking_def)
qed

theorem thinking_request_fields_witness:
  "\<not> isl (RequestOpenAI2ClaudeMessage exampleEnv thinkingRequest)
   \<and> cr_MaxTokens (projr (RequestOpenAI2ClaudeMessage exampleEnv thinkingRequest)) = 1280
   \<and> cr_Thinking (projr (RequestOpenAI2ClaudeMessage exampleEnv thinkingRequest))
        = Some \<lparr>th_Type = ''enabled'', th_BudgetTokens = Some 1024\<rparr>
   \<and> cr_Temperature (projr (RequestOpenAI2ClaudeMessage exampleEnv thinkingRequest)) = None
   \<and> cr_TopP (projr (RequestOpenAI2ClaudeMessage exampleEnv thinkingRequest)) = 0"
proof -
  from thinkingRequest_converts obtain r where
    r: "RequestOpenAI2ClaudeMessage exampleEnv thinkingRequest = Inr r" by blast
  have "or_ReasoningEffort thinkingRequest \<notin> {''low'', ''medium'', ''high''}"
    by (simp add: thinkingRequest_facts)
  from thinking_request_fields [OF thinkingRequest_facts(1-4) this thinkingRequest_facts(6) r] r
  show ?thesis by simp
qed

text \<open>
  Claim C7, as stated, fails: a caller who asks for 512 tokens of a model whose name ends
  in \<^verbatim>\<open>-thinking\<close>, with the thinking adaptor enabled, gets 1280 tokens, not 512.
\<close>

theorem caller_max_tokens_counterexample:
  "or_GetMaxTokens smallRequest = 512
   \<and> map_sum id cr_MaxTokens (RequestOpenAI2ClaudeMessage exampleEnv smallRequest) = Inr 1280"
proof -
  from smallRequest_converts obtain r where
    r: "RequestOpenAI2ClaudeMessage exampleEnv smallRequest = Inr r" by blast
  have "cr_MaxTokens r = 1280"
    using message_mode_MaxTokens [OF r]
    by (simp add: smallRequest_def emptyOpenAIRequest_def exampleEnv_def HasSuffix_def Let_def)
  with r show ?thesis by (simp add: smallRequest_def emptyOpenAIRequest_def)
qed

text \<open>
  Claim C7, amended. In a converted message-mode request the token limit is the caller's
  value when it is not zero and else the model's configured default (as a \<^verbatim>\<open>uint\<close>);
  a value of exactly 4096 becomes 16384; and when the thinking adaptor applies (it is
  enabled and the model name ends in \<^verbatim>\<open>-thinking\<close>) a value below 1280 is raised to 1280.
\<close>

theorem max_tokens_resolution:
  assumes "RequestOpenAI2ClaudeMessage e t = Inr r"
  shows "cr_MaxTokens r =
     (let resolved = (if or_GetMaxTokens t = 0 then uint (GetDefaultMaxTokens e (or_Model t))
                      else or_GetMaxTokens t);
          bumped = (if resolved = 4096 then 16384 else resolved)
      in if ThinkingAdapterEnabled e \<and> HasSuffix (or_Model t) ''-thinking'' \<and> bumped < 1280
         then 1280 else bumped)"
  using assms by (rule message_mode_MaxTokens)

lemma plainRequest_4096_converts:
  "\<exists>r. RequestOpenAI2ClaudeMessage (exampleEnv\<lparr>GetDefaultMaxTokens := \<lambda>model. 4096\<rparr>) plainRequest = Inr r"
  by (simp add: RequestOpenAI2ClaudeMessage_def plainRequest_def emptyOpenAIRequest_def exampleEnv_def
      userText_def withToolChoice_def withMaxTokens_def withThinkingAdapter_def withReasoningEffort_def
      withReasoning_def withStop_def messageStep_def SetStringContent_def HasSuffix_def Let_def)

theorem max_tokens_resolution_witness:
  "cr_MaxTokens (projr (RequestOpenAI2ClaudeMessage exampleEnv plainRequest)) = 8192
   \<and> cr_MaxTokens (projr (RequestOpenAI2ClaudeMessage
        (exampleEnv\<lparr>GetDefaultMaxTokens := \<lambda>model. 4096\<rparr>) plainRequest)) = 16384
   \<and> cr_MaxTokens (projr (RequestOpenAI2ClaudeMessage exampleEnv smallRequest)) = 1280"
proof -
  from plainRequest_converts obtain r1 where
    r1: "RequestOpenAI2ClaudeMessage exampleEnv plainRequest = Inr r1" by blast
  from plainRequest_4096_converts obtain r2 where
    r2: "RequestOpenAI2ClaudeMessage (exampleEnv\<lparr>GetDefaultMaxTokens := \<lambda>model. 4096\<rparr>) plainRequest = Inr r2"
    by blast
  from smallRequest_converts obtain r3 where
    r3: "RequestOpenAI2ClaudeMessage exampleEnv smallRequest = Inr r3" by blast
  have "cr_MaxTokens r1 = 8192"
    using max_tokens_resolution [OF r1]
    by (simp add: plainRequest_def emptyOpenAIRequest_def exampleEnv_def HasSuffix_def Let_def uint_def)
  moreover have "cr_MaxTokens r2 = 16384"
    using max_tokens_resolution [OF r2]
    by (simp add: plainRequest_def emptyOpenAIRequest_def exampleEnv_def HasSuffix_def Let_def uint_def)
  moreover have "cr_MaxTokens r3 = 1280"
    using max_tokens_resolution [OF r3]
    by (simp add: smallRequest_def emptyOpenAIRequest_def exampleEnv_def HasSuffix_def Let_def)
  ultimately show ?thesis using r1 r2 r3 by simp
qed

lemma convertClaude_cleared:
  "cr_TopK (ConvertClaudeRequest e request) = 0
   \<and> cr_TopP (ConvertClaudeRequest e request) = 0
   \<and> cr_Temperature (ConvertClaudeRequest e request) = None"
  by (simp add: ConvertClaudeRequest_def addMetadataIfMissing_def filterRequestFields_def Let_def)

text \<open>
  Claim C9. Every Claude request that a conversion returns, from the pass-through
  conversion, from completion mode and from message mode, has top_k zero, top_p zero and
  no temperature, whatever the caller or the thinking adaptor has set.
\<close>

theorem sampling_fields_cleared:
  "cr_TopK (ConvertClaudeRequest e request) = 0
   \<and> cr_TopP (ConvertClaudeRequest e request) = 0
   \<and> cr_Temperature (ConvertClaudeRequest e request) = None
   \<and> cr_TopK (RequestOpenAI2ClaudeComplete e t) = 0
   \<and> cr_TopP (RequestOpenAI2ClaudeComplete e t) = 0
   \<and> cr_Temperature (RequestOpenAI2ClaudeComplete e t) = None
   \<and> (RequestOpenAI2ClaudeMessage e t = Inr r \<longrightarrow>
        cr_TopK r = 0 \<and> cr_TopP r = 0 \<and> cr_Temperature r = None)
   \<and> (ConvertOpenAIRequest requestMode e t = Inr r \<longrightarrow>
        cr_TopK r = 0 \<and> cr_TopP r = 0 \<and> cr_Temperature r = None)"
proof -
  have c: "cr_TopK (RequestOpenAI2ClaudeComplete e t) = 0
     \<and> cr_TopP (RequestOpenAI2ClaudeComplete e t) = 0
     \<and> cr_Temperature (RequestOpenAI2ClaudeComplete e t) = None"
    by (simp add: RequestOpenAI2ClaudeComplete_def Let_def)
  have m: "RequestOpenAI2ClaudeMessage e t = Inr r \<longrightarrow>
        cr_TopK r = 0 \<and> cr_TopP r = 0 \<and> cr_Temperature r = None"
    using message_mode_cleared by blast
  have "ConvertOpenAIRequest requestMode e t = Inr r \<longrightarrow>
        cr_TopK r = 0 \<and> cr_TopP r = 0 \<and> cr_Temperature r = None"
    using c m by (auto simp: ConvertOpenAIRequest_def split: if_splits)
  with c m convertClaude_cleared [of e request] show ?thesis by blast
qed

theorem sampling_fields_cleared_witness:
  "cr_Temperature sampledClaudeRequest = Some (1 / 2)
   \<and> cr_Temperature (ConvertClaudeRequest exampleEnv sampledClaudeRequest) = None
   \<and> or_Temperature plainRequest = Some (1 / 2)
   \<and> cr_Temperature (RequestOpenAI2ClaudeComplete exampleEnv plainRequest) = None
   \<and> \<not> isl (RequestOpenAI2ClaudeMessage exampleEnv thinkingRequest)
   \<and> cr_Temperature (projr (RequestOpenAI2ClaudeMessage exampleEnv thinkingRequest)) = None
   \<and> cr_TopP (projr (RequestOpenAI2ClaudeMessage exampleEnv thinkingRequest)) = 0
   \<and> cr_TopK (projr (RequestOpenAI2ClaudeMessage exampleEnv thinkingRequest)) = 0
   \<and> cr_Temperature (projr (ConvertOpenAIRequest RequestModeMessage exampleEnv thinkingRequest)) = None"
proof -
  from thinkingRequest_converts obtain r where
    r: "RequestOpenAI2ClaudeMessage exampleEnv thinkingRequest = Inr r" by blast
  then have r': "ConvertOpenAIRequest RequestModeMessage exampleEnv thinkingRequest = Inr r"
    by (simp add: ConvertOpenAIRequest_def RequestModeMessage_def RequestModeCompletion_def)
  from sampling_fields_cleared [of exampleEnv sampledClaudeRequest thinkingRequest r RequestModeMessage]
    sampling_fields_cleared [of exampleEnv sampledClaudeRequest plainRequest]
    r r'
  show ?thesis
    by (simp add: sampledClaudeRequest_def plainRequest_def emptyClaudeRequest_def emptyOpenAIRequest_def)
qed

lemma stopLoop_strings: "stopLoop (map AStr ss) acc = Inr (acc @ ss)"
  by (induction ss arbitrary: acc) auto

lemma stopLoop_non_string:
  "\<exists>x \<in> set stops. asString x = None \<Longrightarrow>
   stopLoop stops acc = Inl (Panic ''interface conversion: interface {} is not string'')"
  by (induction stops arbitrary: acc) (auto split: option.splits)

lemma stop_string_and_list:
  assumes "RequestOpenAI2ClaudeMessage e t = Inr r"
  shows "(or_Stop t = AStr s \<longrightarrow> cr_StopSequences r = Some [s])
       \<and> (or_Stop t = ASlice (map AStr ss) \<longrightarrow> cr_StopSequences r = Some ss)"
proof -
  from message_mode_result [OF assms] obtain c1 c2 cm sm where
    c2: "withStop t c1 = Inr c2"
    and r: "r = filterRequestFields
           ((processClaudeCodeSystemPrompt
               ((if sm \<noteq> [] then c2\<lparr>cr_System := SystemMaps sm\<rparr> else c2)\<lparr>cr_Prompt := []\<rparr>))
              \<lparr>cr_Messages := addCacheControl cm\<rparr>)"
    by blast
  from r have "cr_StopSequences r = cr_StopSequences c2" by simp
  with c2 show ?thesis
    by (auto simp: withStop_def stopLoop_strings)
qed

text \<open>
  Claim C5, the part the code does not keep: when \<^verbatim>\<open>stop\<close> is a list with an element that
  is not a string (the tools convert, no reasoning object is given), the conversion does
  not return an error: the type assertion \<^verbatim>\<open>stop.(string)\<close> panics.
\<close>

theorem stop_list_non_string_panics:
  assumes "or_Stop t = ASlice stops"
    and "\<exists>x \<in> set stops. asString x = None"
    and "toolLoop (or_Tools t) [] = Inr tools"
    and "or_Reasoning t = RawEmpty"
  shows "RequestOpenAI2ClaudeMessage e t
         = Inl (Panic ''interface conversion: interface {} is not string'')"
  using assms
  by (simp add: RequestOpenAI2ClaudeMessage_def Let_def withReasoning_absent withStop_def
      stopLoop_non_string)

theorem stop_list_non_string_panics_witness:
  "or_Stop badStopRequest = ASlice [AStr ''END'', ANum 1]
   \<and> RequestOpenAI2ClaudeMessage exampleEnv badStopRequest
       = Inl (Panic ''interface conversion: interface {} is not string'')"
proof -
  have s: "or_Stop badStopRequest = ASlice [AStr ''END'', ANum 1]"
    by (simp add: badStopRequest_def)
  have n: "\<exists>x \<in> set [AStr ''END'', ANum 1]. asString x = None" by simp
  have tl: "toolLoop (or_Tools badStopRequest) [] = Inr []"
    by (simp add: badStopRequest_def emptyOpenAIRequest_def)
  have re: "or_Reasoning badStopRequest = RawEmpty"
    by (simp add: badStopRequest_def emptyOpenAIRequest_def)
  from stop_list_non_string_panics [OF s n tl re] s show ?thesis by simp
qed

section \<open>Stream reducer: properties\<close>

lemma modes [simp]: "RequestModeMessage \<noteq> RequestModeCompletion"
  by (simp add: RequestModeMessage_def RequestModeCompletion_def)

text \<open>
  Claim C8. At the end of a stream in message mode the usage of the accumulator is replaced
  by the result of the token counter, called with the accumulated text, the upstream model
  name and the prompt-token count known so far, exactly when the completion-token count is
  zero or the completion flag is not set; otherwise it is the usage as it was.
\<close>

theorem final_usage_recomputed_iff:
  assumes "requestMode \<noteq> RequestModeCompletion"
  shows "ci_Usage (st_claudeInfo (HandleStreamFinalResponse sv requestMode st)) =
     (if CompletionTokens (ci_Usage (st_claudeInfo st)) = 0 \<or> \<not> ci_Done (st_claudeInfo st)
      then ResponseText2Usage sv (ci_ResponseText (st_claudeInfo st))
             (ri_UpstreamModelName (st_info st)) (PromptTokens (ci_Usage (st_claudeInfo st)))
      else ci_Usage (st_claudeInfo st))"
  using assms by (simp add: HandleStreamFinalResponse_def Let_def)

theorem final_usage_recomputed_iff_witness:
  "ci_Usage (st_claudeInfo (HandleStreamFinalResponse exampleServices RequestModeMessage
      (accumulated 7 True)))
     = emptyUsage\<lparr>PromptTokens := 10, CompletionTokens := 7, TotalTokens := 17\<rparr>
   \<and> ci_Usage (st_claudeInfo (HandleStreamFinalResponse exampleServices RequestModeMessage
      (accumulated 7 False)))
     = emptyUsage\<lparr>PromptTokens := 10, CompletionTokens := 2, TotalTokens := 12\<rparr>
   \<and> ci_Usage (st_claudeInfo (HandleStreamFinalResponse exampleServices RequestModeMessage
      (accumulated 0 True)))
     = emptyUsage\<lparr>PromptTokens := 10, CompletionTokens := 2, TotalTokens := 12\<rparr>"
  using final_usage_recomputed_iff [OF modes, of exampleServices "accumulated 7 True"]
    final_usage_recomputed_iff [OF modes, of exampleServices "accumulated 7 False"]
    final_usage_recomputed_iff [OF modes, of exampleServices "accumulated 0 True"]
  by (simp add: accumulated_def exampleServices_def openAIInfo_def emptyUsage_def)

lemma start_step:
  assumes "requestMode \<noteq> RequestModeCompletion"
    and "ri_RelayFormat (st_info st) = RelayFormatOpenAI"
    and "resp_Type f = ''message_start''" and "claudeErrorOf f = None"
    and "resp_Message f = Some message" and "mm_Usage message = Some usage"
  shows "HandleStreamResponseData requestMode (Decoded f) st =
     Inr (st\<lparr>
       st_claudeInfo := (st_claudeInfo st)\<lparr>
         ci_ResponseId := mm_Id message,
         ci_Model := mm_Model message,
         ci_Usage := (ci_Usage (st_claudeInfo st))\<lparr>
           PromptTokens := InputTokens usage,
           CachedTokens := CacheReadInputTokens usage,
           CachedCreationTokens := CacheCreationInputTokens usage,
           ClaudeCacheCreation5mTokens := GetCacheCreation5mTokens usage,
           ClaudeCacheCreation1hTokens := GetCacheCreation1hTokens usage,
           CompletionTokens := OutputTokens usage\<rparr>\<rparr>,
       st_sent := st_sent st @
         [ObjectData (Some (deltaChunk (mm_Id message) (ci_Created (st_claudeInfo st))
            (mm_Model message) (Some []) ''assistant'' None))]\<rparr>)"
  using assms
  by (simp add: HandleStreamResponseData_def StreamResponseClaude2OpenAI_def
      FormatClaudeResponseInfo_def chunk_def stamp_def emptyChoice_def deltaChunk_def Let_def)

lemma text_step:
  assumes "requestMode \<noteq> RequestModeCompletion"
    and "ri_RelayFormat (st_info st) = RelayFormatOpenAI"
    and "resp_Type f = ''content_block_delta''" and "claudeErrorOf f = None"
    and "resp_Delta f = Some delta" and "mm_Type delta = ''text_delta''"
  shows "HandleStreamResponseData requestMode (Decoded f) st =
     Inr (st\<lparr>
       st_claudeInfo := appendDelta delta (st_claudeInfo st),
       st_sent := st_sent st @
         [ObjectData (Some (deltaChunk (ci_ResponseId (st_claudeInfo st))
            (ci_Created (st_claudeInfo st)) (ci_Model (st_claudeInfo st))
            (mm_Text delta) [] None))]\<rparr>)"
  using assms
  by (simp add: HandleStreamResponseData_def StreamResponseClaude2OpenAI_def
      FormatClaudeResponseInfo_def chunk_def stamp_def emptyChoice_def deltaChunk_def Let_def
      appendDelta_def split: option.splits)

lemma appendDelta_fields [simp]:
  "ci_ResponseId (appendDelta d c) = ci_ResponseId c"
  "ci_Created (appendDelta d c) = ci_Created c"
  "ci_Model (appendDelta d c) = ci_Model c"
  "ci_Usage (appendDelta d c) = ci_Usage c"
  "ci_Done (appendDelta d c) = ci_Done c"
  by (simp_all add: appendDelta_def Let_def split: option.splits)

lemma closing_step:
  assumes "requestMode \<noteq> RequestModeCompletion"
    and "ri_RelayFormat (st_info st) = RelayFormatOpenAI"
    and "resp_Type f = ''message_delta''" and "claudeErrorOf f = None"
    and "resp_Delta f = Some delta" and "mm_StopReason delta = Some ''end_turn''"
    and "resp_Usage f = Some usage"
  shows "HandleStreamResponseData requestMode (Decoded f) st =
     Inr (st\<lparr>
       st_claudeInfo := (st_claudeInfo st)\<lparr>
         ci_Usage := (ci_Usage (st_claudeInfo st))\<lparr>
           PromptTokens := (if InputTokens usage > 0 then InputTokens usage
                            else PromptTokens (ci_Usage (st_claudeInfo st))),
           CompletionTokens := OutputTokens usage,
           TotalTokens := int64 ((if InputTokens usage > 0 then InputTokens usage
                           else PromptTokens (ci_Usage (st_claudeInfo st))) + OutputTokens usage)\<rparr>,
         ci_Done := True\<rparr>,
       st_sent := st_sent st @
         [ObjectData (Some (deltaChunk (ci_ResponseId (st_claudeInfo st))
            (ci_Created (st_claudeInfo st)) (ci_Model (st_claudeInfo st))
            None [] (Some ''stop'')))]\<rparr>)"
  using assms
  by (simp add: HandleStreamResponseData_def StreamResponseClaude2OpenAI_def
      FormatClaudeResponseInfo_def chunk_def stamp_def emptyChoice_def deltaChunk_def Let_def
      withFinishReason_def stopReasonClaude2OpenAI_def)

lemma stop_step:
  assumes "requestMode \<noteq> RequestModeCompletion"
    and "ri_RelayFormat (st_info st) = RelayFormatOpenAI"
    and "resp_Type f = ''message_stop''" and "claudeErrorOf f = None"
  shows "HandleStreamResponseData requestMode (Decoded f) st = Inr st"
  using assms
  by (simp add: HandleStreamResponseData_def StreamResponseClaude2OpenAI_def
      FormatClaudeResponseInfo_def Let_def)


lemma short_stream_run:
  assumes mode: "requestMode \<noteq> RequestModeCompletion"
    and fmt: "ri_RelayFormat info = RelayFormatOpenAI"
    and f1: "resp_Type f1 = ''message_start''" "claudeErrorOf f1 = None"
            "resp_Message f1 = Some message" "mm_Usage message = Some usage1"
    and f2: "resp_Type f2 = ''content_block_delta''" "claudeErrorOf f2 = None"
            "resp_Delta f2 = Some delta2" "mm_Type delta2 = ''text_delta''" "mm_Text delta2 = Some ''a''"
    and f3: "resp_Type f3 = ''content_block_delta''" "claudeErrorOf f3 = None"
            "resp_Delta f3 = Some delta3" "mm_Type delta3 = ''text_delta''" "mm_Text delta3 = Some ''b''"
    and f4: "resp_Type f4 = ''message_delta''" "claudeErrorOf f4 = None"
            "resp_Delta f4 = Some delta4" "mm_StopReason delta4 = Some ''end_turn''"
            "resp_Usage f4 = Some usage4"
    and f5: "resp_Type f5 = ''message_stop''" "claudeErrorOf f5 = None"
  shows "\<exists>st. streamLoop requestMode (map Decoded [f1, f2, f3, f4, f5]) (newStream sv info) = Inr st
      \<and> st_info st = info
      \<and> ci_Done (st_claudeInfo st)
      \<and> ci_ResponseId (st_claudeInfo st) = mm_Id message
      \<and> ci_Created (st_claudeInfo st) = GetTimestamp sv
      \<and> st_sent st =
          [ObjectData (Some (deltaChunk (mm_Id message) (GetTimestamp sv) (mm_Model message)
             (Some []) ''assistant'' None)),
           ObjectData (Some (deltaChunk (mm_Id message) (GetTimestamp sv) (mm_Model message)
             (Some ''a'') [] None)),
           ObjectData (Some (deltaChunk (mm_Id message) (GetTimestamp sv) (mm_Model message)
             (Some ''b'') [] None)),
           ObjectData (Some (deltaChunk (mm_Id message) (GetTimestamp sv) (mm_Model message)
             None [] (Some ''stop'')))]"
proof -
  let ?s0 = "newStream sv info"
  have i0: "ri_RelayFormat (st_info ?s0) = RelayFormatOpenAI"
    using fmt by (simp add: newStream_def)
  from start_step [OF mode i0 f1] obtain s1 where
    s1: "HandleStreamResponseData requestMode (Decoded f1) ?s0 = Inr s1"
    and i1: "st_info s1 = info"
    and c1: "ci_ResponseId (st_claudeInfo s1) = mm_Id message"
            "ci_Created (st_claudeInfo s1) = GetTimestamp sv"
            "ci_Model (st_claudeInfo s1) = mm_Model message"
    and o1: "st_sent s1 = [ObjectData (Some (deltaChunk (mm_Id message) (GetTimestamp sv)
                (mm_Model message) (Some []) ''assistant'' None))]"
    by (simp add: newStream_def)
  have j1: "ri_RelayFormat (st_info s1) = RelayFormatOpenAI" using i1 fmt by simp
  from text_step [OF mode j1 f2(1-4)] obtain s2 where
    s2: "HandleStreamResponseData requestMode (Decoded f2) s1 = Inr s2"
    and i2: "st_info s2 = info"
    and c2: "ci_ResponseId (st_claudeInfo s2) = mm_Id message"
            "ci_Created (st_claudeInfo s2) = GetTimestamp sv"
            "ci_Model (st_claudeInfo s2) = mm_Model message"
    and o2: "st_sent s2 = st_sent s1 @ [ObjectData (Some (deltaChunk (mm_Id message) (GetTimestamp sv)
                (mm_Model message) (Some ''a'') [] None))]"
    using i1 c1 f2(5) by simp
  have j2: "ri_RelayFormat (st_info s2) = RelayFormatOpenAI" using i2 fmt by simp
  from text_step [OF mode j2 f3(1-4)] obtain s3 where
    s3: "HandleStreamResponseData requestMode (Decoded f3) s2 = Inr s3"
    and i3: "st_info s3 = info"
    and c3: "ci_ResponseId (st_claudeInfo s3) = mm_Id message"
            "ci_Created (st_claudeInfo s3) = GetTimestamp sv"
            "ci_Model (st_claudeInfo s3) = mm_Model message"
    and o3: "st_sent s3 = st_sent s2 @ [ObjectData (Some (deltaChunk (mm_Id message) (GetTimestamp sv)
                (mm_Model message) (Some ''b'') [] None))]"
    using i2 c2 f3(5) by simp
  have j3: "ri_RelayFormat (st_info s3) = RelayFormatOpenAI" using i3 fmt by simp
  from closing_step [OF mode j3 f4] obtain s4 where
    s4: "HandleStreamResponseData requestMode (Decoded f4) s3 = Inr s4"
    and i4: "st_info s4 = info"
    and c4: "ci_ResponseId (st_claudeInfo s4) = mm_Id message"
            "ci_Created (st_claudeInfo s4) = GetTimestamp sv"
            "ci_Done (st_claudeInfo s4)"
    and o4: "st_sent s4 = st_sent s3 @ [ObjectData (Some (deltaChunk (mm_Id message) (GetTimestamp sv)
                (mm_Model message) None [] (Some ''stop'')))]"
    using i3 c3 by simp
  have j4: "ri_RelayFormat (st_info s4) = RelayFormatOpenAI" using i4 fmt by simp
  have s5: "HandleStreamResponseData requestMode (Decoded f5) s4 = Inr s4"
    by (rule stop_step [OF mode j4 f5])
  have "streamLoop requestMode (map Decoded [f1, f2, f3, f4, f5]) ?s0 = Inr s4"
    using s1 s2 s3 s4 s5 by simp
  with i4 c4 o1 o2 o3 o4 show ?thesis by simp
qed

lemma final_sent:
  "ri_RelayFormat (st_info st) = RelayFormatOpenAI \<Longrightarrow>
   st_sent (HandleStreamFinalResponse sv requestMode st) =
     st_sent st @
     (if ri_ShouldIncludeUsage (st_info st)
      then [FinalUsageResponse (ci_ResponseId (st_claudeInfo st)) (ci_Created (st_claudeInfo st))
              (ri_UpstreamModelName (st_info st))
              (ci_Usage (st_claudeInfo (HandleStreamFinalResponse sv requestMode st)))]
      else []) @ [Done]"
  by (simp add: HandleStreamFinalResponse_def Let_def)

text \<open>
  Claim C4, amended. In message mode and the OpenAI relay format, the frames
  \<^verbatim>\<open>message_start\<close>, two text deltas \<^verbatim>\<open>a\<close> and \<^verbatim>\<open>b\<close>, a \<^verbatim>\<open>message_delta\<close> with
  stop reason \<^verbatim>\<open>end_turn\<close> and \<^verbatim>\<open>message_stop\<close> (each with the payload the reducer reads)
  make the reducer send exactly four chunks: three without a finish reason, then one with
  the finish reason \<^verbatim>\<open>stop\<close>. The completion flag is set when the final response is
  made. The final response sends one usage chunk if the caller asked for usage, and none
  otherwise, and then the end marker.
\<close>

theorem short_stream_chunks:
  assumes "requestMode \<noteq> RequestModeCompletion"
    and "ri_RelayFormat info = RelayFormatOpenAI"
    and "resp_Type f1 = ''message_start''" "claudeErrorOf f1 = None"
        "resp_Message f1 = Some message" "mm_Usage message = Some usage1"
    and "resp_Type f2 = ''content_block_delta''" "claudeErrorOf f2 = None"
        "resp_Delta f2 = Some delta2" "mm_Type delta2 = ''text_delta''" "mm_Text delta2 = Some ''a''"
    and "resp_Type f3 = ''content_block_delta''" "claudeErrorOf f3 = None"
        "resp_Delta f3 = Some delta3" "mm_Type delta3 = ''text_delta''" "mm_Text delta3 = Some ''b''"
    and "resp_Type f4 = ''message_delta''" "claudeErrorOf f4 = None"
        "resp_Delta f4 = Some delta4" "mm_StopReason delta4 = Some ''end_turn''"
        "resp_Usage f4 = Some usage4"
    and "resp_Type f5 = ''message_stop''" "claudeErrorOf f5 = None"
  shows "\<exists>st final.
      streamLoop requestMode (map Decoded [f1, f2, f3, f4, f5]) (newStream sv info) = Inr st
      \<and> ci_Done (st_claudeInfo st)
      \<and> st_sent st =
          [ObjectData (Some (deltaChunk (mm_Id message) (GetTimestamp sv) (mm_Model message)
             (Some []) ''assistant'' None)),
           ObjectData (Some (deltaChunk (mm_Id message) (GetTimestamp sv) (mm_Model message)
             (Some ''a'') [] None)),
           ObjectData (Some (deltaChunk (mm_Id message) (GetTimestamp sv) (mm_Model message)
             (Some ''b'') [] None)),
           ObjectData (Some (deltaChunk (mm_Id message) (GetTimestamp sv) (mm_Model message)
             None [] (Some ''stop'')))]
      \<and> ClaudeStreamHandler sv info (map Decoded [f1, f2, f3, f4, f5]) requestMode = Inr final
      \<and> st_sent final = st_sent st @
            (if ri_ShouldIncludeUsage info
             then [FinalUsageResponse (mm_Id message) (GetTimestamp sv) (ri_UpstreamModelName info)
                     (ci_Usage (st_claudeInfo final))]
             else []) @ [Done]"
proof -
  from short_stream_run [OF assms, of sv] obtain st where
    st: "streamLoop requestMode (map Decoded [f1, f2, f3, f4, f5]) (newStream sv info) = Inr st"
      "st_info st = info" "ci_Done (st_claudeInfo st)"
      "ci_ResponseId (st_claudeInfo st) = mm_Id message"
      "ci_Created (st_claudeInfo st) = GetTimestamp sv"
      "st_sent st =
          [ObjectData (Some (deltaChunk (mm_Id message) (GetTimestamp sv) (mm_Model message)
             (Some []) ''assistant'' None)),
           ObjectData (Some (deltaChunk (mm_Id message) (GetTimestamp sv) (mm_Model message)
             (Some ''a'') [] None)),
           ObjectData (Some (deltaChunk (mm_Id message) (GetTimestamp sv) (mm_Model message)
             (Some ''b'') [] None)),
           ObjectData (Some (deltaChunk (mm_Id message) (GetTimestamp sv) (mm_Model message)
             None [] (Some ''stop'')))]"
    by blast
  let ?final = "HandleStreamFinalResponse sv requestMode st"
  have h: "ClaudeStreamHandler sv info (map Decoded [f1, f2, f3, f4, f5]) requestMode = Inr ?final"
    using st(1) by (simp add: ClaudeStreamHandler_def)
  have "st_sent ?final = st_sent st @
            (if ri_ShouldIncludeUsage info
             then [FinalUsageResponse (mm_Id message) (GetTimestamp sv) (ri_UpstreamModelName info)
                     (ci_Usage (st_claudeInfo ?final))]
             else []) @ [Done]"
    using final_sent [of st sv requestMode] st(2,4,5) assms(2) by simp
  with st h show ?thesis by blast
qed

lemma shortStream_frames:
  "resp_Type messageStart = ''message_start''" "claudeErrorOf messageStart = None"
  "resp_Message messageStart = Some (emptyMedia\<lparr>mm_Id := ''msg_1'', mm_Model := ''claude-sonnet-4'',
     mm_Usage := Some (usageOf 10 1)\<rparr>)"
  "mm_Usage (emptyMedia\<lparr>mm_Id := ''msg_1'', mm_Model := ''claude-sonnet-4'',
     mm_Usage := Some (usageOf 10 1)\<rparr>) = Some (usageOf 10 1)"
  "resp_Type (textDelta t) = ''content_block_delta''" "claudeErrorOf (textDelta t) = None"
  "resp_Delta (textDelta t) = Some (emptyMedia\<lparr>mm_Type := ''text_delta'', mm_Text := Some t\<rparr>)"
  "mm_Type (emptyMedia\<lparr>mm_Type := ''text_delta'', mm_Text := Some t\<rparr>) = ''text_delta''"
  "mm_Text (emptyMedia\<lparr>mm_Type := ''text_delta'', mm_Text := Some t\<rparr>) = Some t"
  "resp_Type messageDelta = ''message_delta''" "claudeErrorOf messageDelta = None"
  "resp_Delta messageDelta = Some (emptyMedia\<lparr>mm_StopReason := Some ''end_turn''\<rparr>)"
  "mm_StopReason (emptyMedia\<lparr>mm_StopReason := Some ''end_turn''\<rparr>) = Some ''end_turn''"
  "resp_Usage messageDelta = Some (usageOf 0 2)"
  "resp_Type messageStop = ''message_stop''" "claudeErrorOf messageStop = None"
  by (simp_all add: messageStart_def textDelta_def messageDelta_def messageStop_def frameOf_def
      claudeErrorOf_def)

text \<open>
  Claim C4, as stated, fails: when the caller has not asked for usage, no usage chunk
  follows the chunks of the frames.
\<close>

theorem no_usage_chunk_counterexample:
  "map_sum id st_sent
     (ClaudeStreamHandler exampleServices (openAIInfo False) shortStream RequestModeMessage)
   = Inr [ObjectData (Some (deltaChunk ''msg_1'' 1700000000 ''claude-sonnet-4'' (Some []) ''assistant'' None)),
          ObjectData (Some (deltaChunk ''msg_1'' 1700000000 ''claude-sonnet-4'' (Some ''a'') [] None)),
          ObjectData (Some (deltaChunk ''msg_1'' 1700000000 ''claude-sonnet-4'' (Some ''b'') [] None)),
          ObjectData (Some (deltaChunk ''msg_1'' 1700000000 ''claude-sonnet-4'' None [] (Some ''stop''))),
          Done]"
proof -
  have fmt: "ri_RelayFormat (openAIInfo False) = RelayFormatOpenAI"
    by (simp add: openAIInfo_def)
  from short_stream_run [OF modes fmt shortStream_frames(1-4) shortStream_frames(5-9) [of "''a''"]
      shortStream_frames(5-9) [of "''b''"] shortStream_frames(10-16), of exampleServices]
  obtain st where
    st: "streamLoop RequestModeMessage shortStream (newStream exampleServices (openAIInfo False)) = Inr st"
      "st_info st = openAIInfo False"
      "st_sent st =
          [ObjectData (Some (deltaChunk ''msg_1'' 1700000000 ''claude-sonnet-4'' (Some []) ''assistant'' None)),
           ObjectData (Some (deltaChunk ''msg_1'' 1700000000 ''claude-sonnet-4'' (Some ''a'') [] None)),
           ObjectData (Some (deltaChunk ''msg_1'' 1700000000 ''claude-sonnet-4'' (Some ''b'') [] None)),
           ObjectData (Some (deltaChunk ''msg_1'' 1700000000 ''claude-sonnet-4'' None [] (Some ''stop'')))]"
    by (auto simp: shortStream_def exampleServices_def emptyMedia_def)
  have "st_sent (HandleStreamFinalResponse exampleServices RequestModeMessage st) = st_sent st @ [Done]"
    using final_sent [of st exampleServices RequestModeMessage] st(2) by (simp add: openAIInfo_def)
  with st show ?thesis by (simp add: ClaudeStreamHandler_def)
qed

theorem short_stream_chunks_witness:
  "\<exists>st final.
      streamLoop RequestModeMessage shortStream (newStream exampleServices (openAIInfo True)) = Inr st
      \<and> ci_Done (st_claudeInfo st)
      \<and> st_sent st =
          [ObjectData (Some (deltaChunk ''msg_1'' 1700000000 ''claude-sonnet-4'' (Some []) ''assistant'' None)),
           ObjectData (Some (deltaChunk ''msg_1'' 1700000000 ''claude-sonnet-4'' (Some ''a'') [] None)),
           ObjectData (Some (deltaChunk ''msg_1'' 1700000000 ''claude-sonnet-4'' (Some ''b'') [] None)),
           ObjectData (Some (deltaChunk ''msg_1'' 1700000000 ''claude-sonnet-4'' None [] (Some ''stop'')))]
      \<and> ClaudeStreamHandler exampleServices (openAIInfo True) shortStream RequestModeMessage = Inr final
      \<and> st_sent final = st_sent st @
            [FinalUsageResponse ''msg_1'' 1700000000 ''claude-sonnet-4'' (ci_Usage (st_claudeInfo final)),
             Done]"
proof -
  have fmt: "ri_RelayFormat (openAIInfo True) = RelayFormatOpenAI"
    by (simp add: openAIInfo_def)
  from short_stream_chunks [OF modes fmt shortStream_frames(1-4) shortStream_frames(5-9) [of "''a''"]
      shortStream_frames(5-9) [of "''b''"] shortStream_frames(10-16), of exampleServices]
  show ?thesis
    by (simp add: shortStream_def exampleServices_def emptyMedia_def openAIInfo_def)
qed

lemma unknown_frame_format:
  assumes "requestMode \<noteq> RequestModeCompletion" and "resp_Type r \<notin> knownEventTypes"
  shows "FormatClaudeResponseInfo requestMode r oai claudeInfo = Inr (False, oai, claudeInfo)"
  using assms by (simp add: FormatClaudeResponseInfo_def knownEventTypes_def Let_def)

lemma unknown_frame_chunk:
  assumes "requestMode \<noteq> RequestModeCompletion" and "resp_Type r \<notin> knownEventTypes"
  shows "StreamResponseClaude2OpenAI requestMode r = Inr None"
  using assms by (simp add: StreamResponseClaude2OpenAI_def knownEventTypes_def Let_def)

lemma unknown_frame_step:
  assumes "requestMode \<noteq> RequestModeCompletion" and "resp_Type r \<notin> knownEventTypes"
    and "claudeErrorOf r = None"
  shows "HandleStreamResponseData requestMode (Decoded r) st =
     Inr (if ri_RelayFormat (st_info st) = RelayFormatClaude
          then st\<lparr>st_sent := st_sent st @ [ClaudeChunkData r]\<rparr> else st)"
  using assms
  by (simp add: HandleStreamResponseData_def unknown_frame_format unknown_frame_chunk
      knownEventTypes_def)

lemma error_frame_step:
  assumes "resp_Error r = Some claudeError" and "err_Type claudeError \<noteq> []"
  shows "HandleStreamResponseData requestMode (Decoded r) st = Inl (WithClaudeError claudeError)"
  using assms by (simp add: HandleStreamResponseData_def claudeErrorOf_def)

lemma undecodable_step:
  "HandleStreamResponseData requestMode Undecodable st = Inl BadResponseBody"
  by (simp add: HandleStreamResponseData_def)

text \<open>
  Claim C10, amended. In message mode a decoded frame without an error envelope whose
  event type is none of the five known ones is skipped: no error, the accumulator is
  unchanged, no OpenAI chunk is sent (in the Claude relay format the frame itself is passed
  on), and in the OpenAI relay format the stream goes on as if the frame had not been there.
  A decoded frame that carries an error envelope with a type that is not empty, whatever
  its event type, makes the handler return the provider's error, and a frame that does not
  decode makes it return the bad-response-body error; either ends the stream there, and the
  frames after it are not handled.
\<close>

theorem unknown_event_skipped:
  "(requestMode \<noteq> RequestModeCompletion \<and> resp_Type r \<notin> knownEventTypes
      \<and> claudeErrorOf r = None \<longrightarrow>
      (\<exists>st'. HandleStreamResponseData requestMode (Decoded r) st = Inr st'
            \<and> st_claudeInfo st' = st_claudeInfo st
            \<and> st_sent st' = st_sent st @
                 (if ri_RelayFormat (st_info st) = RelayFormatClaude then [ClaudeChunkData r] else []))
      \<and> (ri_RelayFormat (st_info st) = RelayFormatOpenAI \<longrightarrow>
           HandleStreamResponseData requestMode (Decoded r) st = Inr st
           \<and> streamLoop requestMode (Decoded r # rest) st = streamLoop requestMode rest st))
   \<and> (resp_Error r = Some claudeError \<and> err_Type claudeError \<noteq> [] \<longrightarrow>
        HandleStreamResponseData requestMode (Decoded r) st = Inl (WithClaudeError claudeError)
        \<and> streamLoop requestMode (Decoded r # rest) st = Inl (WithClaudeError claudeError))
   \<and> HandleStreamResponseData requestMode Undecodable st = Inl BadResponseBody
   \<and> streamLoop requestMode (Undecodable # rest) st = Inl BadResponseBody"
proof (intro conjI impI)
  assume a: "requestMode \<noteq> RequestModeCompletion \<and> resp_Type r \<notin> knownEventTypes
      \<and> claudeErrorOf r = None"
  then have step: "HandleStreamResponseData requestMode (Decoded r) st =
     Inr (if ri_RelayFormat (st_info st) = RelayFormatClaude
          then st\<lparr>st_sent := st_sent st @ [ClaudeChunkData r]\<rparr> else st)"
    using unknown_frame_step [of requestMode r st] by simp
  then show "\<exists>st'. HandleStreamResponseData requestMode (Decoded r) st = Inr st'
            \<and> st_claudeInfo st' = st_claudeInfo st
            \<and> st_sent st' = st_sent st @
                 (if ri_RelayFormat (st_info st) = RelayFormatClaude then [ClaudeChunkData r] else [])"
    by simp
  assume f: "ri_RelayFormat (st_info st) = RelayFormatOpenAI"
  with step show "HandleStreamResponseData requestMode (Decoded r) st = Inr st" by simp
  then show "streamLoop requestMode (Decoded r # rest) st = streamLoop requestMode rest st"
    by simp
next
  assume "resp_Error r = Some claudeError \<and> err_Type claudeError \<noteq> []"
  then show "HandleStreamResponseData requestMode (Decoded r) st = Inl (WithClaudeError claudeError)"
    by (simp add: error_frame_step)
  then show "streamLoop requestMode (Decoded r # rest) st = Inl (WithClaudeError claudeError)"
    by simp
next
  show "HandleStreamResponseData requestMode Undecodable st = Inl BadResponseBody"
    by (rule undecodable_step)
  then show "streamLoop requestMode (Undecodable # rest) st = Inl BadResponseBody"
    by simp
qed

text \<open>
  Claim C10, as stated, fails: a frame of type \<^verbatim>\<open>error\<close> decodes, its type is none of the
  five, and the handler returns the provider's error, which ends the stream.
\<close>

theorem error_frame_aborts_counterexample:
  "resp_Type errorFrame \<notin> knownEventTypes
   \<and> HandleStreamResponseData RequestModeMessage (Decoded errorFrame)
        (newStream exampleServices (openAIInfo True))
      = Inl (WithClaudeError \<lparr>err_Type = ''overloaded_error'', err_Message = ''Overloaded''\<rparr>)"
  by (simp add: errorFrame_def frameOf_def knownEventTypes_def HandleStreamResponseData_def
      claudeErrorOf_def)

theorem unknown_event_skipped_witness:
  "HandleStreamResponseData RequestModeMessage (Decoded pingFrame)
      (newStream exampleServices (openAIInfo True))
     = Inr (newStream exampleServices (openAIInfo True))
   \<and> streamLoop RequestModeMessage (Decoded pingFrame # shortStream)
        (newStream exampleServices (openAIInfo True))
     = streamLoop RequestModeMessage shortStream (newStream exampleServices (openAIInfo True))
   \<and> streamLoop RequestModeMessage (Decoded errorFrame # shortStream)
        (newStream exampleServices (openAIInfo True))
     = Inl (WithClaudeError \<lparr>err_Type = ''overloaded_error'', err_Message = ''Overloaded''\<rparr>)
   \<and> streamLoop RequestModeMessage (Undecodable # shortStream)
        (newStream exampleServices (openAIInfo True))
     = Inl BadResponseBody"
proof -
  let ?st = "newStream exampleServices (openAIInfo True)"
  let ?err = "\<lparr>err_Type = ''overloaded_error'', err_Message = ''Overloaded''\<rparr>"
  have t: "resp_Type pingFrame \<notin> knownEventTypes"
    by (simp add: pingFrame_def frameOf_def knownEventTypes_def)
  have e: "claudeErrorOf pingFrame = None"
    by (simp add: pingFrame_def frameOf_def claudeErrorOf_def)
  have f: "ri_RelayFormat (st_info ?st) = RelayFormatOpenAI"
    by (simp add: newStream_def openAIInfo_def)
  have x: "resp_Error errorFrame = Some ?err \<and> err_Type ?err \<noteq> []"
    by (simp add: errorFrame_def frameOf_def)
  from unknown_event_skipped [of RequestModeMessage pingFrame ?st shortStream] modes t e f
  have skip: "HandleStreamResponseData RequestModeMessage (Decoded pingFrame) ?st = Inr ?st
      \<and> streamLoop RequestModeMessage (Decoded pingFrame # shortStream) ?st
          = streamLoop RequestModeMessage shortStream ?st"
    by blast
  from unknown_event_skipped [of RequestModeMessage errorFrame ?st shortStream ?err] x
  have stop: "streamLoop RequestModeMessage (Decoded errorFrame # shortStream) ?st
      = Inl (WithClaudeError ?err)"
    by blast
  from unknown_event_skipped [of RequestModeMessage pingFrame ?st shortStream]
  have bad: "streamLoop RequestModeMessage (Undecodable # shortStream) ?st = Inl BadResponseBody"
    by blast
  from skip stop bad show ?thesis by blast
qed

end
